theory Spec2Isabelle
  imports Main
begin

section \<open>Policy documents (create\_s3\_user.py, create\_policy)\<close>

text \<open>
  The policy document is a Python dict of strings, lists and dicts that is later passed to
  \<^verbatim>\<open>json.dumps\<close>. Dicts are association lists in insertion order.
\<close>

datatype json = JStr string | JList "json list" | JDict "(string \<times> json) list"

text \<open>\<^verbatim>\<open>d[k] = v\<close>: an existing key keeps its position, a new key goes last.\<close>

fun dict_set :: "string \<Rightarrow> json \<Rightarrow> (string \<times> json) list \<Rightarrow> (string \<times> json) list" where
  "dict_set k v [] = [(k, v)]"
| "dict_set k v ((k', v') # d) = (if k' = k then (k, v) # d else (k', v') # dict_set k v d)"

text \<open>\<^verbatim>\<open>d.update(other)\<close>\<close>

fun dict_update :: "(string \<times> json) list \<Rightarrow> (string \<times> json) list \<Rightarrow> (string \<times> json) list" where
  "dict_update d [] = d"
| "dict_update d ((k, v) # other) = dict_update (dict_set k v d) other"

text \<open>\<^verbatim>\<open>d.get(k)\<close> on a dict value; \<open>None\<close> for a missing key or a value that is no dict.\<close>

fun dict_get :: "string \<Rightarrow> json \<Rightarrow> json option" where
  "dict_get k (JDict d) = map_of d k"
| "dict_get k _ = None"

text \<open>\<^verbatim>\<open>xs[0]\<close> on a list value.\<close>

fun list_first :: "json \<Rightarrow> json option" where
  "list_first (JList (x # xs)) = Some x"
| "list_first _ = None"

text \<open>Lines 141--144: the resource ARN.\<close>

definition resource_arn :: "string \<Rightarrow> string \<Rightarrow> string \<Rightarrow> string" where
  "resource_arn actions bucket_name user_name =
     (if actions = ''s3:GetObject''
      then ''arn:aws:s3:::'' @ bucket_name @ ''/'' @ user_name @ ''/*''
      else ''arn:aws:s3:::'' @ bucket_name)"

text \<open>Lines 160--173: the condition added for \<^verbatim>\<open>s3:ListBucket\<close>.\<close>

definition condition :: "string \<Rightarrow> (string \<times> json) list" where
  "condition user_name =
     (let user_folder = user_name @ ''/'' in
      [(''Condition'', JDict
         [(''StringEquals'', JDict
            [(''s3:prefix'', JList [JStr '''', JStr user_folder]),
             (''s3:delimiter'', JList [JStr ''/''])])])])"

text \<open>
  Lines 141--175: the dict that \<^verbatim>\<open>create_policy\<close> builds before it calls the
  provider. \<^verbatim>\<open>policy_doc['Statement'][0].update(condition)\<close> mutates the only
  statement in place.
\<close>

definition policy_doc :: "string \<Rightarrow> string \<Rightarrow> string \<Rightarrow> json" where
  "policy_doc actions bucket_name user_name =
     (let statement =
            [(''Effect'', JStr ''Allow''),
             (''Action'', JStr actions),
             (''Resource'', JStr (resource_arn actions bucket_name user_name))];
          statement' =
            (if actions = ''s3:ListBucket''
             then dict_update statement (condition user_name)
             else statement)
      in JDict [(''Version'', JStr ''2012-10-17''),
                (''Statement'', JList [JDict statement'])])"

text \<open>Reading a document back: the only statement, and a path of keys below it.\<close>

definition statement_of :: "json \<Rightarrow> json option" where
  "statement_of doc = Option.bind (dict_get ''Statement'' doc) list_first"

fun path_get :: "string list \<Rightarrow> json \<Rightarrow> json option" where
  "path_get [] j = Some j"
| "path_get (k # ks) j = Option.bind (dict_get k j) (path_get ks)"

definition statement_get :: "string list \<Rightarrow> json \<Rightarrow> json option" where
  "statement_get ks doc = Option.bind (statement_of doc) (path_get ks)"

fun strings_of :: "json \<Rightarrow> string set" where
  "strings_of (JList xs) = {s. JStr s \<in> set xs}"
| "strings_of _ = {}"

section \<open>User-name validation (create\_s3\_user.py, is\_valid\_user\_name)\<close>

text \<open>
  \<^verbatim>\<open>re.match("^[A-Za-z0-9_-]+$", user_name)\<close>. The pattern is a sequence of three
  items: the anchor \<^verbatim>\<open>^\<close>, a character class under \<^verbatim>\<open>+\<close>, and the anchor
  \<^verbatim>\<open>$\<close>. Without \<^verbatim>\<open>re.MULTILINE\<close>, \<^verbatim>\<open>^\<close> matches at position 0 only and
  \<^verbatim>\<open>$\<close> matches at the end of the string and just before a newline that ends the
  string. \<^verbatim>\<open>re.match\<close> asks for a match that starts at position 0; it does not ask that
  the match reaches the end.
\<close>

datatype class_item = Range char char | Lit char

datatype rx = Bol | Eol | PlusClass "class_item list"

fun in_item :: "class_item \<Rightarrow> char \<Rightarrow> bool" where
  "in_item (Range a b) c = ((of_char a :: nat) \<le> of_char c \<and> (of_char c :: nat) \<le> of_char b)"
| "in_item (Lit a) c = (c = a)"

definition in_class :: "class_item list \<Rightarrow> char \<Rightarrow> bool" where
  "in_class cls c = list_ex (\<lambda>i. in_item i c) cls"

text \<open>
  \<open>rx_match p at_start s\<close>: the pattern \<open>p\<close> matches some prefix of the rest \<open>s\<close> of the
  subject; \<open>at_start\<close> says that no character has been consumed yet.
\<close>

fun rx_match :: "rx list \<Rightarrow> bool \<Rightarrow> string \<Rightarrow> bool" where
  "rx_match [] at_start s = True"
| "rx_match (Bol # p) at_start s = (at_start \<and> rx_match p at_start s)"
| "rx_match (Eol # p) at_start s = ((s = [] \<or> s = [CHR 0x0A]) \<and> rx_match p at_start s)"
| "rx_match (PlusClass cls # p) at_start [] = False"
| "rx_match (PlusClass cls # p) at_start (c # cs) =
     (in_class cls c \<and> (rx_match (PlusClass cls # p) False cs \<or> rx_match p False cs))"

definition name_class :: "class_item list" where
  "name_class = [Range CHR ''A'' CHR ''Z'', Range CHR ''a'' CHR ''z'',
                 Range CHR ''0'' CHR ''9'', Lit CHR ''_'', Lit CHR ''-'']"

definition user_name_pattern :: "rx list" where
  "user_name_pattern = [Bol, PlusClass name_class, Eol]"

definition is_valid_user_name :: "string \<Rightarrow> bool" where
  "is_valid_user_name user_name =
     (if rx_match user_name_pattern True user_name then True else False)"


section \<open>The runtime: exceptions, the log, the console, provider calls\<close>

text \<open>
  An exception raised by a provider call, as far as the scripts look at it:
  \<^verbatim>\<open>type(e).__name__\<close>, \<^verbatim>\<open>repr(str(e))\<close>, and whether it is a
  \<^verbatim>\<open>botocore.exceptions.ClientError\<close>. Provider calls raise subclasses of
  \<^verbatim>\<open>Exception\<close> only.
\<close>

record exn =
  exn_type :: string
  exn_repr :: string
  client_error :: bool

text \<open>
  \<^verbatim>\<open>exit(0)\<close> raises \<^verbatim>\<open>SystemExit\<close>, which is no subclass of
  \<^verbatim>\<open>Exception\<close>: \<^verbatim>\<open>except Exception\<close> lets it through.
\<close>

datatype abort = SystemExit int | Raised exn

text \<open>The objects the provider hands out, with the attributes the scripts read.\<close>

record iam_user =
  u_name :: string
  u_user_name :: string

record iam_policy =
  policy_name :: string
  arn :: string

record access_key =
  key_id :: string
  secret :: string

datatype level = INFO | WARNING | ERROR

text \<open>
  A log line. \<open>PolicyDocText d\<close> is the line \<^verbatim>\<open>f'Policy doc: {policy_doc}'\<close>, whose
  text is Python's \<^verbatim>\<open>repr\<close> of the dict \<open>d\<close>.
\<close>

datatype message = Text string | PolicyDocText json

text \<open>Every call that leaves the process, in the order issued.\<close>

datatype call =
    BucketExists string
  | ListUsers
  | CreateUser string
  | ListPolicies string
  | IamCreatePolicy string string json
  | AttachPolicy string string
  | CreateKey string
  | WriteCsv string "string list list"
  | ListKeys string
  | DeleteKey string string
  | DetachPolicy string string
  | DeletePolicy string
  | DeleteUser string
  | ObjectsFilter string string
  | ObjectsDelete string string
  | BasicConfig string

text \<open>
  The module \<^verbatim>\<open>s3_user_utils\<close>, the \<^verbatim>\<open>boto3\<close> clients and the local file system
  are parameters: each operation maps the state \<open>'w\<close> of the outside world to an exception
  or a result, and a new state. \<^verbatim>\<open>iam_create_policy\<close> receives the dict itself where the
  script passes \<^verbatim>\<open>json.dumps(policy_doc)\<close>; \<^verbatim>\<open>open_write_csv\<close> receives the rows
  that \<^verbatim>\<open>csv.writer\<close> is given; \<^verbatim>\<open>objects_filter\<close> and \<^verbatim>\<open>objects_delete\<close> are
  \<^verbatim>\<open>bucket.objects.filter(Prefix=prefix)\<close>, iterated and \<^verbatim>\<open>.delete()\<close>d.
\<close>

record 'w provider =
  bucket_exists :: "string \<Rightarrow> 'w \<Rightarrow> (exn + bool) \<times> 'w"
  list_users :: "'w \<Rightarrow> (exn + iam_user list) \<times> 'w"
  create_user :: "string \<Rightarrow> 'w \<Rightarrow> (exn + iam_user) \<times> 'w"
  user_policy_name :: "string \<Rightarrow> string \<Rightarrow> string"
  list_policies :: "string \<Rightarrow> 'w \<Rightarrow> (exn + iam_policy list) \<times> 'w"
  iam_create_policy :: "string \<Rightarrow> string \<Rightarrow> json \<Rightarrow> 'w \<Rightarrow> (exn + iam_policy) \<times> 'w"
  attach_policy :: "string \<Rightarrow> string \<Rightarrow> 'w \<Rightarrow> (exn + unit) \<times> 'w"
  create_key :: "string \<Rightarrow> 'w \<Rightarrow> (exn + access_key option) \<times> 'w"
  open_write_csv :: "string \<Rightarrow> string list list \<Rightarrow> 'w \<Rightarrow> (exn + unit) \<times> 'w"
  list_keys :: "string \<Rightarrow> 'w \<Rightarrow> (exn + access_key list) \<times> 'w"
  delete_key :: "string \<Rightarrow> string \<Rightarrow> 'w \<Rightarrow> (exn + unit) \<times> 'w"
  detach_policy :: "string \<Rightarrow> string \<Rightarrow> 'w \<Rightarrow> (exn + unit) \<times> 'w"
  delete_policy :: "string \<Rightarrow> 'w \<Rightarrow> (exn + unit) \<times> 'w"
  delete_user :: "string \<Rightarrow> 'w \<Rightarrow> (exn + unit) \<times> 'w"
  objects_filter :: "string \<Rightarrow> string \<Rightarrow> 'w \<Rightarrow> (exn + string list) \<times> 'w"
  objects_delete :: "string \<Rightarrow> string \<Rightarrow> 'w \<Rightarrow> (exn + unit) \<times> 'w"

text \<open>What a run has done so far.\<close>

record 'w state =
  world :: 'w
  calls :: "call list"
  logged :: "(level \<times> message) list"
  printed :: "string list"

type_synonym ('w, 'a) prog = "'w state \<Rightarrow> (abort + 'a) \<times> 'w state"

definition return :: "'a \<Rightarrow> ('w, 'a) prog" where
  "return x = (\<lambda>s. (Inr x, s))"

definition then_do :: "('w, 'a) prog \<Rightarrow> ('a \<Rightarrow> ('w, 'b) prog) \<Rightarrow> ('w, 'b) prog" where
  "then_do m f = (\<lambda>s. case m s of (Inl a, s') \<Rightarrow> (Inl a, s') | (Inr x, s') \<Rightarrow> f x s')"

definition and_then :: "('w, 'a) prog \<Rightarrow> ('w, 'b) prog \<Rightarrow> ('w, 'b) prog" where
  "and_then m n = then_do m (\<lambda>_. n)"

definition raise :: "exn \<Rightarrow> ('w, 'a) prog" where
  "raise e = (\<lambda>s. (Inl (Raised e), s))"

definition sys_exit :: "int \<Rightarrow> ('w, 'a) prog" where
  "sys_exit n = (\<lambda>s. (Inl (SystemExit n), s))"

definition logger_log :: "level \<Rightarrow> message \<Rightarrow> ('w, unit) prog" where
  "logger_log lvl msg = (\<lambda>s. (Inr (), s\<lparr>logged := logged s @ [(lvl, msg)]\<rparr>))"

definition print :: "string \<Rightarrow> ('w, unit) prog" where
  "print line = (\<lambda>s. (Inr (), s\<lparr>printed := printed s @ [line]\<rparr>))"

definition invoke :: "call \<Rightarrow> ('w \<Rightarrow> (exn + 'a) \<times> 'w) \<Rightarrow> ('w, 'a) prog" where
  "invoke c op = (\<lambda>s.
     case op (world s) of
       (Inl e, w') \<Rightarrow> (Inl (Raised e), s\<lparr>world := w', calls := calls s @ [c]\<rparr>)
     | (Inr x, w') \<Rightarrow> (Inr x, s\<lparr>world := w', calls := calls s @ [c]\<rparr>))"

text \<open>\<^verbatim>\<open>for x in xs: body(x)\<close>\<close>

fun for_each :: "'a list \<Rightarrow> ('a \<Rightarrow> ('w, unit) prog) \<Rightarrow> ('w, unit) prog" where
  "for_each [] body = return ()"
| "for_each (x # xs) body = and_then (body x) (for_each xs body)"

text \<open>A loop that updates one local variable.\<close>

fun for_acc :: "'a list \<Rightarrow> 'b \<Rightarrow> ('a \<Rightarrow> 'b \<Rightarrow> ('w, 'b) prog) \<Rightarrow> ('w, 'b) prog" where
  "for_acc [] acc body = return acc"
| "for_acc (x # xs) acc body = then_do (body x acc) (\<lambda>acc'. for_acc xs acc' body)"

text \<open>\<^verbatim>\<open>try: body  except Exception as e: handler(e)  else: orelse\<close>\<close>

definition try_except_else ::
  "('w, 'a) prog \<Rightarrow> (exn \<Rightarrow> ('w, 'b) prog) \<Rightarrow> ('w, 'b) prog \<Rightarrow> ('w, 'b) prog" where
  "try_except_else body handler orelse = (\<lambda>s.
     case body s of
       (Inr x, s') \<Rightarrow> orelse s'
     | (Inl (Raised e), s') \<Rightarrow> handler e s'
     | (Inl (SystemExit n), s') \<Rightarrow> (Inl (SystemExit n), s'))"

text \<open>\<^verbatim>\<open>exit_program\<close>, the same in both scripts (lines 232--238 and 105--111).\<close>

definition exit_program :: "string \<Rightarrow> ('w, 'a) prog" where
  "exit_program message =
     and_then (logger_log ERROR (Text (''Exiting. '' @ message)))
    (and_then (print (''ERROR. Exiting. '' @ message))
           (sys_exit 0))"

text \<open>
  The exit status of the process whose main function is \<open>m\<close>: 0 when it returns, the code of
  a \<^verbatim>\<open>SystemExit\<close>, 1 when an exception escapes.
\<close>

definition init_state :: "'w \<Rightarrow> 'w state" where
  "init_state w = \<lparr>world = w, calls = [], logged = [], printed = []\<rparr>"

definition run_process :: "('w, unit) prog \<Rightarrow> 'w \<Rightarrow> int \<times> 'w state" where
  "run_process m w =
     (case m (init_state w) of
        (Inr u, s) \<Rightarrow> (0, s)
      | (Inl (SystemExit n), s) \<Rightarrow> (n, s)
      | (Inl (Raised e), s) \<Rightarrow> (1, s))"

text \<open>\<^verbatim>\<open>str(n)\<close> for a count.\<close>

fun str_nat :: "nat \<Rightarrow> string" where
  "str_nat n = (if n < 10 then [char_of (48 + n)]
                else str_nat (n div 10) @ [char_of (48 + n mod 10)])"

declare str_nat.simps [simp del]

section \<open>Provisioning (create\_s3\_user.py)\<close>

text \<open>\<^verbatim>\<open>policy_exists\<close>, lines 190--200.\<close>

fun policy_name_in :: "string \<Rightarrow> iam_policy list \<Rightarrow> bool" where
  "policy_name_in name [] = False"
| "policy_name_in name (policy # rest) =
     (if name = policy_name policy then True else policy_name_in name rest)"

definition policy_exists :: "'w provider \<Rightarrow> string \<Rightarrow> ('w, bool) prog" where
  "policy_exists p name =
     then_do (invoke (ListPolicies ''Local'') (list_policies p ''Local''))
       (\<lambda>listed. return (policy_name_in name listed))"

text \<open>\<^verbatim>\<open>create_policy\<close>, lines 118--187.\<close>

definition create_policy ::
  "'w provider \<Rightarrow> string \<Rightarrow> string \<Rightarrow> string \<Rightarrow> string \<Rightarrow> string \<Rightarrow> ('w, iam_policy) prog" where
  "create_policy p name description actions bucket_name user_name =
     (let doc = policy_doc actions bucket_name user_name in
      and_then (logger_log INFO (PolicyDocText doc))
        (\<lambda>s. case invoke (IamCreatePolicy name description doc)
                          (iam_create_policy p name description doc) s of
                (Inr policy, s') \<Rightarrow>
                  and_then (logger_log INFO (Text (''Created policy '' @ arn policy)))
                        (return policy) s'
              | (Inl (Raised e), s') \<Rightarrow>
                  (if client_error e
                   then and_then (logger_log ERROR (Text (''Couldn't create policy '' @ name)))
                              (raise e) s'
                   else (Inl (Raised e), s'))
              | (Inl (SystemExit n), s') \<Rightarrow> (Inl (SystemExit n), s')))"

text \<open>\<^verbatim>\<open>create_and_add_policies\<close>, lines 85--115.\<close>

definition create_and_add_policies :: "'w provider \<Rightarrow> iam_user \<Rightarrow> string \<Rightarrow> ('w, unit) prog" where
  "create_and_add_policies p user bucket_name =
     and_then (logger_log INFO (Text (''Creating list and get policies for bucket '' @ bucket_name)))
    (let list_name = user_policy_name p (u_user_name user) ''list'' in
     then_do (policy_exists p list_name) (\<lambda>list_taken.
     and_then (if list_taken
            then exit_program (''Cannot create policy because it already exists: '' @ list_name)
            else return ())
    (then_do (create_policy p list_name ''Grant permission to list bucket for user folder''
                ''s3:ListBucket'' bucket_name (u_name user)) (\<lambda>list_policy.
     and_then (invoke (AttachPolicy (u_name user) (arn list_policy))
                   (attach_policy p (u_name user) (arn list_policy)))
    (let get_name = user_policy_name p (u_user_name user) ''get'' in
     then_do (policy_exists p get_name) (\<lambda>get_taken.
     and_then (if get_taken
            then exit_program (''Cannot create policy because it already exists: '' @ get_name)
            else return ())
    (then_do (create_policy p get_name ''Grant permission to get objects from users folder''
                ''s3:GetObject'' bucket_name (u_name user)) (\<lambda>get_policy.
     invoke (AttachPolicy (u_name user) (arn get_policy))
            (attach_policy p (u_name user) (arn get_policy))))))))))"

text \<open>\<^verbatim>\<open>write_keys_to_csv\<close>, lines 212--229.\<close>

definition write_keys_to_csv :: "'w provider \<Rightarrow> string \<Rightarrow> access_key option \<Rightarrow> ('w, unit) prog" where
  "write_keys_to_csv p user_name key_pair =
     (case key_pair of
        None \<Rightarrow> exit_program (''No keys available to save to csv for user '' @ user_name)
      | Some kp \<Rightarrow>
          (let key_info = [[''Access key ID'', ''Secret access key''], [key_id kp, secret kp]];
               csv_filename = user_name @ ''_accessKeys.csv'' in
           and_then (invoke (WriteCsv csv_filename key_info) (open_write_csv p csv_filename key_info))
                 (logger_log INFO (Text (''Wrote keys to file '' @ csv_filename @ ''.'')))))"

text \<open>The body of the \<^verbatim>\<open>try\<close> block, lines 55--74.\<close>

definition create_body :: "'w provider \<Rightarrow> string \<Rightarrow> string \<Rightarrow> ('w, unit) prog" where
  "create_body p bucket_name user_name =
     then_do (invoke (BucketExists bucket_name) (bucket_exists p bucket_name)) (\<lambda>found.
     and_then (if \<not> found then exit_program (''Bucket does not exist: '' @ bucket_name)
            else return ())
    (and_then (if \<not> is_valid_user_name user_name
            then exit_program (''Invalid user name: '' @ user_name @
                   ''. Only letters, numbers, underscores, and dashes are allowed.'')
            else return ())
    (then_do (invoke ListUsers (list_users p)) (\<lambda>existing.
     and_then (for_each existing (\<lambda>existing_user.
              if user_name = u_name existing_user
              then exit_program (''This user already exists in the account: '' @ user_name)
              else return ()))
    (then_do (invoke (CreateUser user_name) (create_user p user_name)) (\<lambda>user.
     and_then (create_and_add_policies p user bucket_name)
    (then_do (invoke (CreateKey user_name) (create_key p user_name)) (\<lambda>key_pair.
     write_keys_to_csv p user_name key_pair))))))))"

text \<open>The \<^verbatim>\<open>except\<close> clause, the same in both scripts (lines 76--79 and 96--99).\<close>

definition on_exception :: "exn \<Rightarrow> ('w, unit) prog" where
  "on_exception e =
     (let error_message = ''Error of type '' @ exn_type e @ '' occurred:'' @ exn_repr e in
      and_then (logger_log ERROR (Text error_message)) (exit_program error_message))"

text \<open>
  \<^verbatim>\<open>create_s3_user\<close> from the parsed arguments on, lines 50--82. The lines before
  them, the set-up of the log file and \<^verbatim>\<open>parse_args\<close>, are in
  \<open>create_s3_user_main\<close> below, which runs this part on the parsed arguments.
\<close>

definition create_s3_user :: "'w provider \<Rightarrow> string \<Rightarrow> string \<Rightarrow> ('w, unit) prog" where
  "create_s3_user p bucket_name user_name =
     and_then (logger_log INFO (Text (''Creating iam-user '' @ user_name @ '' for bucket '' @ bucket_name)))
           (try_except_else (create_body p bucket_name user_name) on_exception (print ''Success!''))"

section \<open>Deprovisioning (delete\_s3\_user.py)\<close>

text \<open>Lines 49--55.\<close>

definition delete_keys :: "'w provider \<Rightarrow> string \<Rightarrow> ('w, unit) prog" where
  "delete_keys p user_name =
     then_do (invoke (ListKeys user_name) (list_keys p user_name)) (\<lambda>all_keys_for_user.
       if all_keys_for_user \<noteq> []
       then for_each all_keys_for_user (\<lambda>key.
              and_then (logger_log INFO (Text (''Deleting key '' @ key_id key @ '' for user '' @ user_name @ ''.'')))
                    (invoke (DeleteKey user_name (key_id key)) (delete_key p user_name (key_id key))))
       else logger_log WARNING (Text (''No access keys found for user '' @ user_name @ ''.'')))"

text \<open>Lines 58--70.\<close>

definition delete_policies :: "'w provider \<Rightarrow> string \<Rightarrow> ('w, unit) prog" where
  "delete_policies p user_name =
     then_do (invoke (ListPolicies ''Local'') (list_policies p ''Local'')) (\<lambda>listed_policies.
       let user_policy_names = [user_policy_name p user_name ''list'',
                                user_policy_name p user_name ''get''] in
       for_each user_policy_names (\<lambda>upn.
         then_do (for_acc listed_policies False (\<lambda>policy found_policy.
                    if policy_name policy = upn
                    then and_then (logger_log INFO (Text (''Deleting policy '' @ upn @ '' for user '' @ user_name @ ''.'')))
                        (and_then (invoke (DetachPolicy user_name (arn policy)) (detach_policy p user_name (arn policy)))
                        (and_then (invoke (DeletePolicy (arn policy)) (delete_policy p (arn policy)))
                               (return True)))
                    else return found_policy))
           (\<lambda>found_policy.
              if \<not> found_policy
              then logger_log WARNING (Text (''Cannot find policy to remove: '' @ upn @ ''.''))
              else return ())))"

text \<open>Lines 81--94.\<close>

definition delete_objects :: "'w provider \<Rightarrow> string \<Rightarrow> string \<Rightarrow> ('w, unit) prog" where
  "delete_objects p bucket_name user_name =
     and_then (logger_log INFO (Text (''Deleting objects for user '' @ user_name @ '' in bucket '' @ bucket_name @ ''.'')))
    (let prefix = user_name @ ''/'' in
     then_do (invoke (ObjectsFilter bucket_name prefix) (objects_filter p bucket_name prefix)) (\<lambda>keys.
       let user_object_count = fold (\<lambda>key n. n + 1) keys (0::nat) in
       if user_object_count > 0
       then and_then (logger_log INFO (Text (''Number of ojects to delete: '' @ str_nat user_object_count)))
                  (invoke (ObjectsDelete bucket_name prefix) (objects_delete p bucket_name prefix))
       else logger_log WARNING (Text (''No objects found for user '' @ user_name @ '' in bucket '' @ bucket_name @ ''.''))))"

text \<open>The body of the \<^verbatim>\<open>try\<close> block, lines 48--94.\<close>

definition delete_body :: "'w provider \<Rightarrow> string \<Rightarrow> string \<Rightarrow> ('w, unit) prog" where
  "delete_body p bucket_name user_name =
     and_then (delete_keys p user_name)
    (and_then (delete_policies p user_name)
    (and_then (logger_log INFO (Text (''Deleting user '' @ user_name)))
    (and_then (invoke (DeleteUser user_name) (delete_user p user_name))
    (then_do (invoke (BucketExists bucket_name) (bucket_exists p bucket_name)) (\<lambda>found.
     and_then (if \<not> found then exit_program (''Bucket does not exist: '' @ bucket_name)
            else return ())
           (delete_objects p bucket_name user_name))))))"

text \<open>
  \<^verbatim>\<open>delete_s3_user\<close> from the parsed arguments on, lines 43--102. The lines before
  them are in \<open>delete_s3_user_main\<close> below.
\<close>

definition delete_s3_user :: "'w provider \<Rightarrow> string \<Rightarrow> string \<Rightarrow> ('w, unit) prog" where
  "delete_s3_user p bucket_name user_name =
     and_then (logger_log INFO (Text (''Deleting iam-user '' @ user_name @ '' for bucket '' @ bucket_name @ ''.'')))
           (try_except_else (delete_body p bucket_name user_name) on_exception (print ''Success!''))"


section \<open>The scripts as processes (both files, from the first line of the function)\<close>

text \<open>
  One \<^verbatim>\<open>parser.add_argument\<close> call (lines 43--46 and 36--39): the option strings, the
  destination, and \<^verbatim>\<open>required\<close>. The default is \<^verbatim>\<open>None\<close> and the type is a string.
\<close>

record argument =
  option_strings :: "string list"
  dest :: string
  required :: bool

definition parser_arguments :: "argument list" where
  "parser_arguments =
     [\<lparr>option_strings = [''-b'', ''--bucket_name''], dest = ''bucket_name'', required = True\<rparr>,
      \<lparr>option_strings = [''-u'', ''--user_name''], dest = ''user_name'', required = True\<rparr>]"

text \<open>The result of \<^verbatim>\<open>parser.parse_args()\<close>: \<^verbatim>\<open>args.bucket_name\<close>, \<^verbatim>\<open>args.user_name\<close>.\<close>

record namespace =
  args_bucket_name :: string
  args_user_name :: string

text \<open>
  What the two functions use before the \<^verbatim>\<open>try\<close>: the date of the run as
  \<^verbatim>\<open>date.today().strftime("%Y%m%d")\<close>, \<^verbatim>\<open>logging.basicConfig\<close> on the log file, which
  raises when the file cannot be opened, and \<^verbatim>\<open>argparse\<close>, which either returns the
  namespace or leaves through \<^verbatim>\<open>SystemExit\<close> with a status. They are parameters, as the
  provider is. Nothing catches what happens here: these lines are outside the \<^verbatim>\<open>try\<close>.
\<close>

record 'w host =
  today :: "'w \<Rightarrow> string"
  basic_config :: "string \<Rightarrow> 'w \<Rightarrow> (exn + unit) \<times> 'w"
  parse_args :: "argument list \<Rightarrow> string list \<Rightarrow> int + namespace"

text \<open>\<^verbatim>\<open>create_s3_user()\<close> as line 242 runs it, lines 36--82; \<open>argv\<close> is \<^verbatim>\<open>sys.argv[1:]\<close>.\<close>

definition create_s3_user_main :: "'w host \<Rightarrow> 'w provider \<Rightarrow> string list \<Rightarrow> ('w, unit) prog" where
  "create_s3_user_main h p argv = (\<lambda>s.
     (let run_date = today h (world s);
          log_filename = ''create_s3_user_'' @ run_date @ ''.log'' in
      and_then (invoke (BasicConfig log_filename) (basic_config h log_filename))
        (case parse_args h parser_arguments argv of
           Inl status \<Rightarrow> sys_exit status
         | Inr args \<Rightarrow> create_s3_user p (args_bucket_name args) (args_user_name args))) s)"

text \<open>\<^verbatim>\<open>delete_s3_user()\<close> as line 115 runs it, lines 29--102.\<close>

definition delete_s3_user_main :: "'w host \<Rightarrow> 'w provider \<Rightarrow> string list \<Rightarrow> ('w, unit) prog" where
  "delete_s3_user_main h p argv = (\<lambda>s.
     (let run_date = today h (world s);
          log_filename = ''delete_s3_user_'' @ run_date @ ''.log'' in
      and_then (invoke (BasicConfig log_filename) (basic_config h log_filename))
        (case parse_args h parser_arguments argv of
           Inl status \<Rightarrow> sys_exit status
         | Inr args \<Rightarrow> delete_s3_user p (args_bucket_name args) (args_user_name args))) s)"

section \<open>A provider account to run the scripts against\<close>

text \<open>
  Modelled from the spec: the module \<^verbatim>\<open>s3_user_utils\<close> and the provider behind it are
  not part of the sources. The spec lists the operations the scripts need (identity,
  policy, credential and storage operations) and names the two policies of an identity
  \<^verbatim>\<open>{name}-list\<close> and \<^verbatim>\<open>{name}-get\<close>. This account keeps each kind of resource
  in a list; an operation on a resource that is absent, and the creation of one that is
  present, raise a \<^verbatim>\<open>ClientError\<close>.
\<close>

record account =
  buckets :: "string list"
  users :: "string list"
  policies :: "(string \<times> string) list"
  attached :: "(string \<times> string) list"
  access_keys :: "(string \<times> access_key) list"
  objects :: "(string \<times> string) list"
  files :: "(string \<times> string list list) list"

definition provider_error :: "string \<Rightarrow> exn" where
  "provider_error what =
     \<lparr>exn_type = ''ClientError'', exn_repr = [CHR 0x27] @ what @ [CHR 0x27], client_error = True\<rparr>"

definition starts_with :: "string \<Rightarrow> string \<Rightarrow> bool" where
  "starts_with prefix k = (take (length prefix) k = prefix)"

definition acct_bucket_exists :: "string \<Rightarrow> account \<Rightarrow> (exn + bool) \<times> account" where
  "acct_bucket_exists b w = (Inr (b \<in> set (buckets w)), w)"

definition acct_list_users :: "account \<Rightarrow> (exn + iam_user list) \<times> account" where
  "acct_list_users w = (Inr (map (\<lambda>n. \<lparr>u_name = n, u_user_name = n\<rparr>) (users w)), w)"

definition acct_create_user :: "string \<Rightarrow> account \<Rightarrow> (exn + iam_user) \<times> account" where
  "acct_create_user n w =
     (if n \<in> set (users w) then (Inl (provider_error ''EntityAlreadyExists''), w)
      else (Inr \<lparr>u_name = n, u_user_name = n\<rparr>, w\<lparr>users := users w @ [n]\<rparr>))"

definition acct_user_policy_name :: "string \<Rightarrow> string \<Rightarrow> string" where
  "acct_user_policy_name n kind = n @ ''-'' @ kind"

definition acct_list_policies :: "string \<Rightarrow> account \<Rightarrow> (exn + iam_policy list) \<times> account" where
  "acct_list_policies scope w =
     (Inr (map (\<lambda>(n, a). \<lparr>policy_name = n, arn = a\<rparr>) (policies w)), w)"

definition acct_iam_create_policy ::
  "string \<Rightarrow> string \<Rightarrow> json \<Rightarrow> account \<Rightarrow> (exn + iam_policy) \<times> account" where
  "acct_iam_create_policy n description doc w =
     (if n \<in> fst ` set (policies w) then (Inl (provider_error ''EntityAlreadyExists''), w)
      else (let a = ''arn:aws:iam::000000000000:policy/'' @ n in
            (Inr \<lparr>policy_name = n, arn = a\<rparr>, w\<lparr>policies := policies w @ [(n, a)]\<rparr>)))"

definition acct_attach_policy :: "string \<Rightarrow> string \<Rightarrow> account \<Rightarrow> (exn + unit) \<times> account" where
  "acct_attach_policy u a w =
     (if u \<in> set (users w) then (Inr (), w\<lparr>attached := attached w @ [(u, a)]\<rparr>)
      else (Inl (provider_error ''NoSuchEntity''), w))"

definition acct_create_key :: "string \<Rightarrow> account \<Rightarrow> (exn + access_key option) \<times> account" where
  "acct_create_key u w =
     (if u \<in> set (users w)
      then (let k = \<lparr>key_id = ''AKIA'' @ u, secret = ''secret-of-'' @ u\<rparr> in
            (Inr (Some k), w\<lparr>access_keys := access_keys w @ [(u, k)]\<rparr>))
      else (Inl (provider_error ''NoSuchEntity''), w))"

definition acct_open_write_csv ::
  "string \<Rightarrow> string list list \<Rightarrow> account \<Rightarrow> (exn + unit) \<times> account" where
  "acct_open_write_csv f rows w =
     (Inr (), w\<lparr>files := filter (\<lambda>(f', r). f' \<noteq> f) (files w) @ [(f, rows)]\<rparr>)"

definition acct_list_keys :: "string \<Rightarrow> account \<Rightarrow> (exn + access_key list) \<times> account" where
  "acct_list_keys u w =
     (if u \<in> set (users w)
      then (Inr (map snd (filter (\<lambda>(u', k). u' = u) (access_keys w))), w)
      else (Inl (provider_error ''NoSuchEntity''), w))"

definition acct_delete_key :: "string \<Rightarrow> string \<Rightarrow> account \<Rightarrow> (exn + unit) \<times> account" where
  "acct_delete_key u kid w =
     (Inr (), w\<lparr>access_keys := filter (\<lambda>(u', k). u' \<noteq> u \<or> key_id k \<noteq> kid) (access_keys w)\<rparr>)"

definition acct_detach_policy :: "string \<Rightarrow> string \<Rightarrow> account \<Rightarrow> (exn + unit) \<times> account" where
  "acct_detach_policy u a w =
     (if (u, a) \<in> set (attached w)
      then (Inr (), w\<lparr>attached := filter (\<lambda>x. x \<noteq> (u, a)) (attached w)\<rparr>)
      else (Inl (provider_error ''NoSuchEntity''), w))"

definition acct_delete_policy :: "string \<Rightarrow> account \<Rightarrow> (exn + unit) \<times> account" where
  "acct_delete_policy a w =
     (if a \<in> snd ` set (attached w) then (Inl (provider_error ''DeleteConflict''), w)
      else (Inr (), w\<lparr>policies := filter (\<lambda>(n, a'). a' \<noteq> a) (policies w)\<rparr>))"

definition acct_delete_user :: "string \<Rightarrow> account \<Rightarrow> (exn + unit) \<times> account" where
  "acct_delete_user u w =
     (if u \<in> set (users w) then (Inr (), w\<lparr>users := filter (\<lambda>u'. u' \<noteq> u) (users w)\<rparr>)
      else (Inl (provider_error ''NoSuchEntity''), w))"

definition acct_objects_filter :: "string \<Rightarrow> string \<Rightarrow> account \<Rightarrow> (exn + string list) \<times> account" where
  "acct_objects_filter b prefix w =
     (Inr (map snd (filter (\<lambda>(b', k). b' = b \<and> starts_with prefix k) (objects w))), w)"

definition acct_objects_delete :: "string \<Rightarrow> string \<Rightarrow> account \<Rightarrow> (exn + unit) \<times> account" where
  "acct_objects_delete b prefix w =
     (Inr (), w\<lparr>objects := filter (\<lambda>(b', k). \<not> (b' = b \<and> starts_with prefix k)) (objects w)\<rparr>)"

definition acct :: "account provider" where
  "acct = \<lparr>bucket_exists = acct_bucket_exists,
           list_users = acct_list_users,
           create_user = acct_create_user,
           user_policy_name = acct_user_policy_name,
           list_policies = acct_list_policies,
           iam_create_policy = acct_iam_create_policy,
           attach_policy = acct_attach_policy,
           create_key = acct_create_key,
           open_write_csv = acct_open_write_csv,
           list_keys = acct_list_keys,
           delete_key = acct_delete_key,
           detach_policy = acct_detach_policy,
           delete_policy = acct_delete_policy,
           delete_user = acct_delete_user,
           objects_filter = acct_objects_filter,
           objects_delete = acct_objects_delete\<rparr>"

text \<open>An account with one bucket and nothing else, and one with a user and her objects.\<close>

definition fresh :: account where
  "fresh = \<lparr>buckets = [''data''], users = [], policies = [], attached = [],
            access_keys = [], objects = [], files = []\<rparr>"

definition settled :: account where
  "settled = \<lparr>buckets = [''data''], users = [''dave'', ''j.doe''], policies = [], attached = [],
              access_keys = [],
              objects = [(''data'', ''dave/a.txt''), (''data'', ''hal/b.txt'')], files = []\<rparr>"

text \<open>
  A host for that account. The log file can always be opened. The command line is read in
  its plain form only, each option string followed by its value as a word of its own that
  does not start with a dash, the last value of an option winning; every other command
  line, and one that lacks a required option, ends with status 2, the status of an
  \<^verbatim>\<open>argparse\<close> error.
\<close>

fun acct_scan ::
  "argument list \<Rightarrow> string list \<Rightarrow> (string \<times> string) list \<Rightarrow> (string \<times> string) list option" where
  "acct_scan arguments [] seen = Some seen"
| "acct_scan arguments [x] seen = None"
| "acct_scan arguments (x # v # rest) seen =
     (case find (\<lambda>a. x \<in> set (option_strings a)) arguments of
        None \<Rightarrow> None
      | Some a \<Rightarrow>
          (if take 1 v = ''-'' then None
           else acct_scan arguments rest ((dest a, v) # seen)))"

definition acct_parse_args :: "argument list \<Rightarrow> string list \<Rightarrow> int + namespace" where
  "acct_parse_args arguments argv =
     (case acct_scan arguments argv [] of
        None \<Rightarrow> Inl 2
      | Some seen \<Rightarrow>
          (if list_ex (\<lambda>a. required a \<and> map_of seen (dest a) = None) arguments then Inl 2
           else (case (map_of seen ''bucket_name'', map_of seen ''user_name'') of
                   (Some b, Some u) \<Rightarrow> Inr \<lparr>args_bucket_name = b, args_user_name = u\<rparr>
                 | _ \<Rightarrow> Inl 2)))"

definition acct_host :: "account host" where
  "acct_host = \<lparr>today = (\<lambda>w. ''20240101''),
                basic_config = (\<lambda>log_filename w. (Inr (), w)),
                parse_args = acct_parse_args\<rparr>"

section \<open>Notions for the proofs\<close>

text \<open>
  The same account behind a storage endpoint that cannot be reached, behind credentials that
  may not delete objects, and on a host whose working directory cannot be written.
\<close>

definition acct_unreachable :: "account provider" where
  "acct_unreachable =
     acct\<lparr>bucket_exists := (\<lambda>b w. (Inl (provider_error ''EndpointConnectionError''), w))\<rparr>"

definition acct_no_delete :: "account provider" where
  "acct_no_delete =
     acct\<lparr>objects_delete := (\<lambda>b prefix w. (Inl (provider_error ''AccessDenied''), w))\<rparr>"

definition acct_host_read_only :: "account host" where
  "acct_host_read_only =
     acct_host\<lparr>basic_config := (\<lambda>log_filename w.
        (Inl \<lparr>exn_type = ''PermissionError'', exn_repr = ''denied'', client_error = False\<rparr>, w))\<rparr>"

text \<open>The text of the \<^verbatim>\<open>except\<close> clause for an exception.\<close>

definition error_text :: "exn \<Rightarrow> string" where
  "error_text e = ''Error of type '' @ exn_type e @ '' occurred:'' @ exn_repr e"

text \<open>The bucket and the prefix of a call on storage objects.\<close>

fun storage_scope :: "call \<Rightarrow> (string \<times> string) option" where
  "storage_scope (ObjectsFilter b prefix) = Some (b, prefix)"
| "storage_scope (ObjectsDelete b prefix) = Some (b, prefix)"
| "storage_scope _ = None"

text \<open>
  A program is quiet when it prints nothing, unless it leaves through \<^verbatim>\<open>exit_program\<close>
  with status 0 and one error line.
\<close>

definition quiet :: "('w, 'a) prog \<Rightarrow> bool" where
  "quiet m = (\<forall>s. case m s of
       (Inr x, s') \<Rightarrow> printed s' = printed s
     | (Inl (Raised e), s') \<Rightarrow> printed s' = printed s
     | (Inl (SystemExit n), s') \<Rightarrow>
         n = 0 \<and> (\<exists>msg. printed s' = printed s @ [''ERROR. Exiting. '' @ msg]))"

text \<open>A program keeps a property of calls when every call it adds has it.\<close>

definition keeps :: "(call \<Rightarrow> bool) \<Rightarrow> ('w, 'a) prog \<Rightarrow> bool" where
  "keeps ok m = (\<forall>s. list_all ok (calls s) \<longrightarrow> list_all ok (calls (snd (m s))))"

section \<open>The policy documents\<close>

text \<open>
  C2. For every bucket name \<open>B\<close> and user name \<open>U\<close>, the statement of the document
  built for \<^verbatim>\<open>s3:ListBucket\<close> has a condition whose \<^verbatim>\<open>s3:prefix\<close> values are exactly
  the empty string and \<open>U/\<close>, whose \<^verbatim>\<open>s3:delimiter\<close> is \<open>/\<close>, and its resource is
  the ARN of the whole bucket \<open>B\<close>, the same for every user name.
\<close>

theorem list_policy_condition_and_resource:
  "statement_get [''Condition''] (policy_doc ''s3:ListBucket'' B U) =
     Some (JDict [(''StringEquals'', JDict
        [(''s3:prefix'', JList [JStr '''', JStr (U @ ''/'')]),
         (''s3:delimiter'', JList [JStr ''/''])])])
   \<and> (\<exists>ps. statement_get [''Condition'', ''StringEquals'', ''s3:prefix'']
               (policy_doc ''s3:ListBucket'' B U) = Some ps
           \<and> strings_of ps = {'''', U @ ''/''})
   \<and> statement_get [''Condition'', ''StringEquals'', ''s3:delimiter'']
        (policy_doc ''s3:ListBucket'' B U) = Some (JList [JStr ''/''])
   \<and> statement_get [''Resource''] (policy_doc ''s3:ListBucket'' B U) =
        Some (JStr (''arn:aws:s3:::'' @ B))
   \<and> statement_get [''Resource''] (policy_doc ''s3:ListBucket'' B U') =
        statement_get [''Resource''] (policy_doc ''s3:ListBucket'' B U)"
  by (auto simp add: policy_doc_def statement_get_def statement_of_def resource_arn_def
      condition_def)

text \<open>
  C3. For every bucket name \<open>B\<close> and user name \<open>U\<close>, the statement of the document
  built for \<^verbatim>\<open>s3:GetObject\<close> has the resource \<^verbatim>\<open>arn:aws:s3:::B/U/*\<close> and no
  condition: its keys are the effect, the action and the resource.
\<close>

theorem get_policy_resource_no_condition:
  "statement_get [''Resource''] (policy_doc ''s3:GetObject'' B U) =
     Some (JStr (''arn:aws:s3:::'' @ B @ ''/'' @ U @ ''/*''))
   \<and> statement_get [''Condition''] (policy_doc ''s3:GetObject'' B U) = None
   \<and> statement_of (policy_doc ''s3:GetObject'' B U) =
       Some (JDict [(''Effect'', JStr ''Allow''), (''Action'', JStr ''s3:GetObject''),
                    (''Resource'', JStr (''arn:aws:s3:::'' @ B @ ''/'' @ U @ ''/*''))])"
  by (simp add: policy_doc_def statement_get_def statement_of_def resource_arn_def)

text \<open>
  C4. For every bucket name \<open>B\<close> and user name \<open>U\<close>, the folder \<open>U/\<close> in the condition
  of the \<^verbatim>\<open>s3:ListBucket\<close> document and the folder in the resource of the
  \<^verbatim>\<open>s3:GetObject\<close> document are the same string.
\<close>

theorem list_and_get_share_prefix:
  "\<exists>folder. folder = U @ ''/''
     \<and> statement_get [''Condition'', ''StringEquals'', ''s3:prefix'']
         (policy_doc ''s3:ListBucket'' B U) = Some (JList [JStr '''', JStr folder])
     \<and> statement_get [''Resource''] (policy_doc ''s3:GetObject'' B U) =
         Some (JStr (''arn:aws:s3:::'' @ B @ ''/'' @ folder @ ''*''))"
  by (simp add: policy_doc_def statement_get_def statement_of_def resource_arn_def
      condition_def)

section \<open>The user-name check\<close>

lemma plus_eol:
  "rx_match [PlusClass cls, Eol] st s \<longleftrightarrow>
     (\<exists>t. t \<noteq> [] \<and> list_all (in_class cls) t \<and> (s = t \<or> s = t @ [CHR 0x0A]))"
proof (induction s arbitrary: st)
  case Nil
  show ?case by simp
next
  case (Cons c cs)
  show ?case
  proof
    assume m: "rx_match [PlusClass cls, Eol] st (c # cs)"
    then have c: "in_class cls c" by simp
    from m consider (more) "rx_match [PlusClass cls, Eol] False cs"
      | (stop) "cs = [] \<or> cs = [CHR 0x0A]" by auto
    then show "\<exists>t. t \<noteq> [] \<and> list_all (in_class cls) t \<and> (c # cs = t \<or> c # cs = t @ [CHR 0x0A])"
    proof cases
      case more
      then obtain t where "t \<noteq> []" "list_all (in_class cls) t" "cs = t \<or> cs = t @ [CHR 0x0A]"
        using Cons.IH by blast
      with c show ?thesis by (intro exI[of _ "c # t"]) auto
    next
      case stop
      with c show ?thesis by (intro exI[of _ "[c]"]) auto
    qed
  next
    assume "\<exists>t. t \<noteq> [] \<and> list_all (in_class cls) t \<and> (c # cs = t \<or> c # cs = t @ [CHR 0x0A])"
    then obtain t where t: "t \<noteq> []" "list_all (in_class cls) t"
      "c # cs = t \<or> c # cs = t @ [CHR 0x0A]" by blast
    then obtain t' where t': "t = c # t'" by (cases t) auto
    show "rx_match [PlusClass cls, Eol] st (c # cs)"
    proof (cases "t' = []")
      case True
      with t t' show ?thesis by auto
    next
      case False
      with t t' have "rx_match [PlusClass cls, Eol] False cs"
        using Cons.IH[of False] by auto
      with t t' show ?thesis by auto
    qed
  qed
qed

lemma is_valid_user_name_iff:
  "is_valid_user_name s \<longleftrightarrow>
     (\<exists>t. t \<noteq> [] \<and> list_all (in_class name_class) t \<and> (s = t \<or> s = t @ [CHR 0x0A]))"
  by (simp add: is_valid_user_name_def user_name_pattern_def plus_eol)

lemma newline_not_in_name_class: "\<not> in_class name_class (CHR 0x0A)"
  by (simp add: in_class_def name_class_def)

text \<open>
  C1. The claim: \<open>is_valid_user_name\<close> is true for every non-empty string of ASCII
  letters, digits, underscores and dashes, and false for the empty string and for every
  string with a character outside that class. The function departs from it at the name
  \<^verbatim>\<open>a\n\<close>: the newline is outside the class and the name is accepted.
\<close>

theorem is_valid_user_name_accepts_newline:
  "is_valid_user_name (''a'' @ [CHR 0x0A]) \<and> \<not> in_class name_class (CHR 0x0A)"
  by (simp add: is_valid_user_name_def user_name_pattern_def in_class_def name_class_def)

text \<open>
  C10. For every non-empty string \<open>s\<close> of characters of the class
  \<^verbatim>\<open>[A-Za-z0-9_-]\<close>, \<open>is_valid_user_name\<close> is true on \<open>s\<close> followed by one newline,
  a character outside the class: \<^verbatim>\<open>$\<close> matches just before a newline that ends the
  string.
\<close>

theorem trailing_newline_accepted:
  "s \<noteq> [] \<Longrightarrow> list_all (in_class name_class) s \<Longrightarrow> is_valid_user_name (s @ [CHR 0x0A])
     \<and> \<not> in_class name_class (CHR 0x0A)"
  unfolding is_valid_user_name_iff using newline_not_in_name_class by blast

theorem trailing_newline_accepted_witness:
  "''hal-9000'' \<noteq> [] \<and> list_all (in_class name_class) ''hal-9000''
   \<and> is_valid_user_name (''hal-9000'' @ [CHR 0x0A])"
proof -
  have h1: "''hal-9000'' \<noteq> []" by simp
  have h2: "list_all (in_class name_class) ''hal-9000''"
    by (simp add: in_class_def name_class_def)
  show ?thesis using h1 h2 trailing_newline_accepted [OF h1 h2] by simp
qed

section \<open>Unfolding the scripts\<close>

lemmas run_defs = run_process_def init_state_def create_s3_user_def create_body_def
  create_and_add_policies_def create_policy_def policy_exists_def write_keys_to_csv_def
  on_exception_def delete_s3_user_def delete_body_def delete_keys_def delete_policies_def
  delete_objects_def exit_program_def try_except_else_def and_then_def then_do_def return_def
  raise_def sys_exit_def logger_log_def print_def invoke_def Let_def

lemmas acct_defs = acct_def acct_bucket_exists_def acct_list_users_def acct_create_user_def
  acct_user_policy_name_def acct_list_policies_def acct_iam_create_policy_def
  acct_attach_policy_def acct_create_key_def acct_open_write_csv_def acct_list_keys_def
  acct_delete_key_def acct_detach_policy_def acct_delete_policy_def acct_delete_user_def
  acct_objects_filter_def acct_objects_delete_def provider_error_def starts_with_def
  fresh_def settled_def

lemmas main_defs = create_s3_user_main_def delete_s3_user_main_def parser_arguments_def
  acct_host_def acct_parse_args_def acct_unreachable_def acct_no_delete_def
  acct_host_read_only_def error_text_def

section \<open>Provisioning stops at a failed check\<close>

text \<open>
  C5. When the bucket-existence check answers false, the provisioning run reports the
  missing bucket and stops with that check as its only call: no user, policy, key or file
  is created, and the world is as the check left it.
\<close>

theorem missing_bucket_stops_provisioning:
  assumes "bucket_exists p B w = (Inr False, w')"
  shows "run_process (create_s3_user p B U) w =
    (0, \<lparr>world = w',
         calls = [BucketExists B],
         logged = [(INFO, Text (''Creating iam-user '' @ U @ '' for bucket '' @ B)),
                   (ERROR, Text (''Exiting. Bucket does not exist: '' @ B))],
         printed = [''ERROR. Exiting. Bucket does not exist: '' @ B]\<rparr>)"
  using assms by (simp add: run_defs)

theorem missing_bucket_stops_provisioning_witness:
  "bucket_exists acct ''nope'' fresh = (Inr False, fresh)
   \<and> run_process (create_s3_user acct ''nope'' ''dave'') fresh =
    (0, \<lparr>world = fresh,
         calls = [BucketExists ''nope''],
         logged = [(INFO, Text ''Creating iam-user dave for bucket nope''),
                   (ERROR, Text ''Exiting. Bucket does not exist: nope'')],
         printed = [''ERROR. Exiting. Bucket does not exist: nope'']\<rparr>)"
proof -
  have h: "bucket_exists acct ''nope'' fresh = (Inr False, fresh)"
    by (simp add: acct_defs)
  show ?thesis
    using h missing_bucket_stops_provisioning [OF h, of "''dave''"] by simp
qed

lemma exit_program_result:
  "exit_program m s =
     (Inl (SystemExit 0), s\<lparr>logged := logged s @ [(ERROR, Text (''Exiting. '' @ m))],
                            printed := printed s @ [''ERROR. Exiting. '' @ m]\<rparr>)"
  by (simp add: exit_program_def and_then_def then_do_def logger_log_def print_def sys_exit_def)

lemma for_each_exits_on_match:
  "U \<in> u_name ` set us \<Longrightarrow>
   for_each us (\<lambda>existing_user. if U = u_name existing_user then exit_program m else return ()) s
     = exit_program m s"
  by (induction us) (auto simp add: and_then_def then_do_def return_def exit_program_result)

text \<open>
  C6, amended. When the provider's list of users holds the given name, the provisioning run
  prints one error line, exits with status 0 and has issued no call but the bucket check
  and the listing of users: no user is created, no policy is created or attached. Where it
  fails is decided by the checks in their order: at the bucket check, with that check as
  the only call, when the check raises or answers false; at the grammar check, again with
  the bucket check as the only call, when the bucket exists and the name does not pass
  \<open>is_valid_user_name\<close>; and at the uniqueness check when the bucket exists and the name
  passes.
\<close>

theorem existing_user_stops_provisioning:
  assumes "bucket_exists p B w = (r, w1)"
    and "list_users p w1 = (Inr us, w2)"
    and "U \<in> u_name ` set us"
  shows "fst (run_process (create_s3_user p B U) w) = 0
    \<and> (\<exists>m. printed (snd (run_process (create_s3_user p B U) w)) = [''ERROR. Exiting. '' @ m])
    \<and> set (calls (snd (run_process (create_s3_user p B U) w))) \<subseteq> {BucketExists B, ListUsers}
    \<and> (\<forall>e. r = Inl e \<longrightarrow>
         run_process (create_s3_user p B U) w =
          (0, \<lparr>world = w1,
               calls = [BucketExists B],
               logged = [(INFO, Text (''Creating iam-user '' @ U @ '' for bucket '' @ B)),
                         (ERROR, Text (error_text e)),
                         (ERROR, Text (''Exiting. '' @ error_text e))],
               printed = [''ERROR. Exiting. '' @ error_text e]\<rparr>))
    \<and> (r = Inr False \<longrightarrow>
         run_process (create_s3_user p B U) w =
          (0, \<lparr>world = w1,
               calls = [BucketExists B],
               logged = [(INFO, Text (''Creating iam-user '' @ U @ '' for bucket '' @ B)),
                         (ERROR, Text (''Exiting. Bucket does not exist: '' @ B))],
               printed = [''ERROR. Exiting. Bucket does not exist: '' @ B]\<rparr>))
    \<and> (r = Inr True \<and> \<not> is_valid_user_name U \<longrightarrow>
         run_process (create_s3_user p B U) w =
          (0, \<lparr>world = w1,
               calls = [BucketExists B],
               logged = [(INFO, Text (''Creating iam-user '' @ U @ '' for bucket '' @ B)),
                         (ERROR, Text (''Exiting. Invalid user name: '' @ U @
                            ''. Only letters, numbers, underscores, and dashes are allowed.''))],
               printed = [''ERROR. Exiting. Invalid user name: '' @ U @
                            ''. Only letters, numbers, underscores, and dashes are allowed.'']\<rparr>))
    \<and> (r = Inr True \<and> is_valid_user_name U \<longrightarrow>
         run_process (create_s3_user p B U) w =
          (0, \<lparr>world = w2,
               calls = [BucketExists B, ListUsers],
               logged = [(INFO, Text (''Creating iam-user '' @ U @ '' for bucket '' @ B)),
                         (ERROR, Text (''Exiting. This user already exists in the account: '' @ U))],
               printed = [''ERROR. Exiting. This user already exists in the account: '' @ U]\<rparr>))"
proof -
  have body: "create_body p B U s =
      (case invoke (BucketExists B) (bucket_exists p B) s of
         (Inl a, s') \<Rightarrow> (Inl a, s')
       | (Inr found, s') \<Rightarrow>
           if \<not> found then exit_program (''Bucket does not exist: '' @ B) s'
           else if \<not> is_valid_user_name U
           then exit_program (''Invalid user name: '' @ U @
                   ''. Only letters, numbers, underscores, and dashes are allowed.'') s'
           else (case invoke ListUsers (list_users p) s' of
                   (Inl a, s'') \<Rightarrow> (Inl a, s'')
                 | (Inr existing, s'') \<Rightarrow>
                     (if U \<in> u_name ` set existing
                      then exit_program (''This user already exists in the account: '' @ U) s''
                      else and_then (for_each existing (\<lambda>existing_user.
                              if U = u_name existing_user
                              then exit_program (''This user already exists in the account: '' @ U)
                              else return ()))
                          (then_do (invoke (CreateUser U) (create_user p U)) (\<lambda>user.
                           and_then (create_and_add_policies p user B)
                          (then_do (invoke (CreateKey U) (create_key p U)) (\<lambda>key_pair.
                           write_keys_to_csv p U key_pair)))) s'')))" for s
    unfolding create_body_def
    by (auto simp add: and_then_def then_do_def return_def exit_program_def for_each_exits_on_match
        logger_log_def print_def sys_exit_def
        split: prod.splits sum.splits)
  show ?thesis
  proof (cases r)
    case (Inl e)
    with assms show ?thesis
      by (simp add: run_process_def init_state_def create_s3_user_def try_except_else_def body
          and_then_def then_do_def logger_log_def invoke_def on_exception_def exit_program_def
          print_def sys_exit_def Let_def error_text_def)
  next
    case (Inr found)
    with assms show ?thesis
      by (simp add: run_process_def init_state_def create_s3_user_def try_except_else_def body
          and_then_def then_do_def logger_log_def invoke_def on_exception_def exit_program_def
          print_def sys_exit_def Let_def error_text_def)
  qed
qed

theorem existing_user_stops_provisioning_witness:
  "is_valid_user_name ''dave'' \<and> \<not> is_valid_user_name ''j.doe''
   \<and> ''dave'' \<in> set (users settled) \<and> ''j.doe'' \<in> set (users settled)
   \<and> run_process (create_s3_user acct ''data'' ''dave'') settled =
          (0, \<lparr>world = settled,
               calls = [BucketExists ''data'', ListUsers],
               logged = [(INFO, Text ''Creating iam-user dave for bucket data''),
                         (ERROR, Text ''Exiting. This user already exists in the account: dave'')],
               printed = [''ERROR. Exiting. This user already exists in the account: dave'']\<rparr>)
   \<and> run_process (create_s3_user acct ''data'' ''j.doe'') settled =
          (0, \<lparr>world = settled,
               calls = [BucketExists ''data''],
               logged = [(INFO, Text ''Creating iam-user j.doe for bucket data''),
                         (ERROR, Text ''Exiting. Invalid user name: j.doe. Only letters, numbers, underscores, and dashes are allowed.'')],
               printed = [''ERROR. Exiting. Invalid user name: j.doe. Only letters, numbers, underscores, and dashes are allowed.'']\<rparr>)
   \<and> run_process (create_s3_user acct ''nope'' ''j.doe'') settled =
          (0, \<lparr>world = settled,
               calls = [BucketExists ''nope''],
               logged = [(INFO, Text ''Creating iam-user j.doe for bucket nope''),
                         (ERROR, Text ''Exiting. Bucket does not exist: nope'')],
               printed = [''ERROR. Exiting. Bucket does not exist: nope'']\<rparr>)
   \<and> run_process (create_s3_user acct_unreachable ''data'' ''dave'') settled =
          (0, \<lparr>world = settled,
               calls = [BucketExists ''data''],
               logged = [(INFO, Text ''Creating iam-user dave for bucket data''),
                         (ERROR, Text (error_text (provider_error ''EndpointConnectionError''))),
                         (ERROR, Text (''Exiting. ''
                            @ error_text (provider_error ''EndpointConnectionError'')))],
               printed = [''ERROR. Exiting. ''
                            @ error_text (provider_error ''EndpointConnectionError'')]\<rparr>)"
proof -
  let ?us = "[\<lparr>u_name = ''dave'', u_user_name = ''dave''\<rparr>,
              \<lparr>u_name = ''j.doe'', u_user_name = ''j.doe''\<rparr>]"
  have found: "bucket_exists acct ''data'' settled = (Inr True, settled)"
    by (simp add: acct_defs)
  have missing: "bucket_exists acct ''nope'' settled = (Inr False, settled)"
    by (simp add: acct_defs)
  have down: "bucket_exists acct_unreachable ''data'' settled =
      (Inl (provider_error ''EndpointConnectionError''), settled)"
    by (simp add: acct_unreachable_def acct_def)
  have listed: "list_users acct settled = (Inr ?us, settled)"
    by (simp add: acct_defs)
  have listed': "list_users acct_unreachable settled = (Inr ?us, settled)"
    by (simp add: acct_unreachable_def acct_defs)
  have dave: "''dave'' \<in> u_name ` set ?us" by simp
  have doe: "''j.doe'' \<in> u_name ` set ?us" by simp
  have v1: "is_valid_user_name ''dave''"
    by (simp add: is_valid_user_name_def user_name_pattern_def in_class_def name_class_def)
  have v2: "\<not> is_valid_user_name ''j.doe''"
    by (simp add: is_valid_user_name_def user_name_pattern_def in_class_def name_class_def)
  have members: "''dave'' \<in> set (users settled) \<and> ''j.doe'' \<in> set (users settled)"
    by (simp add: settled_def)
  note a = existing_user_stops_provisioning [OF found listed dave]
  note b = existing_user_stops_provisioning [OF found listed doe]
  note c = existing_user_stops_provisioning [OF missing listed doe]
  note d = existing_user_stops_provisioning [OF down listed' dave]
  from a v1 have ra: "run_process (create_s3_user acct ''data'' ''dave'') settled =
          (0, \<lparr>world = settled,
               calls = [BucketExists ''data'', ListUsers],
               logged = [(INFO, Text ''Creating iam-user dave for bucket data''),
                         (ERROR, Text ''Exiting. This user already exists in the account: dave'')],
               printed = [''ERROR. Exiting. This user already exists in the account: dave'']\<rparr>)"
    by simp
  from b v2 have rb: "run_process (create_s3_user acct ''data'' ''j.doe'') settled =
          (0, \<lparr>world = settled,
               calls = [BucketExists ''data''],
               logged = [(INFO, Text ''Creating iam-user j.doe for bucket data''),
                         (ERROR, Text ''Exiting. Invalid user name: j.doe. Only letters, numbers, underscores, and dashes are allowed.'')],
               printed = [''ERROR. Exiting. Invalid user name: j.doe. Only letters, numbers, underscores, and dashes are allowed.'']\<rparr>)"
    by simp
  from c have rc: "run_process (create_s3_user acct ''nope'' ''j.doe'') settled =
          (0, \<lparr>world = settled,
               calls = [BucketExists ''nope''],
               logged = [(INFO, Text ''Creating iam-user j.doe for bucket nope''),
                         (ERROR, Text ''Exiting. Bucket does not exist: nope'')],
               printed = [''ERROR. Exiting. Bucket does not exist: nope'']\<rparr>)"
    by simp
  from d have rd: "run_process (create_s3_user acct_unreachable ''data'' ''dave'') settled =
          (0, \<lparr>world = settled,
               calls = [BucketExists ''data''],
               logged = [(INFO, Text ''Creating iam-user dave for bucket data''),
                         (ERROR, Text (error_text (provider_error ''EndpointConnectionError''))),
                         (ERROR, Text (''Exiting. ''
                            @ error_text (provider_error ''EndpointConnectionError'')))],
               printed = [''ERROR. Exiting. ''
                            @ error_text (provider_error ''EndpointConnectionError'')]\<rparr>)"
    by simp
  from v1 v2 members ra rb rc rd show ?thesis by simp
qed

text \<open>
  C6 as stated says that the run fails at the uniqueness check. With the existing user
  \<^verbatim>\<open>dave\<close> and a bucket that does not exist, the run fails at the bucket check and never
  lists the users.
\<close>

theorem existing_user_missing_bucket_counterexample:
  "list_users acct settled =
       (Inr [\<lparr>u_name = ''dave'', u_user_name = ''dave''\<rparr>,
             \<lparr>u_name = ''j.doe'', u_user_name = ''j.doe''\<rparr>], settled)
   \<and> run_process (create_s3_user acct ''nope'' ''dave'') settled =
          (0, \<lparr>world = settled,
               calls = [BucketExists ''nope''],
               logged = [(INFO, Text ''Creating iam-user dave for bucket nope''),
                         (ERROR, Text ''Exiting. Bucket does not exist: nope'')],
               printed = [''ERROR. Exiting. Bucket does not exist: nope'']\<rparr>)"
  by (simp add: run_defs acct_defs)

section \<open>Exit status and printed line\<close>

named_theorems quiet_intros

lemma quiet_return [quiet_intros]: "quiet (return x)"
  by (simp add: quiet_def return_def)

lemma quiet_raise [quiet_intros]: "quiet (raise e)"
  by (simp add: quiet_def raise_def)

lemma quiet_logger_log [quiet_intros]: "quiet (logger_log lvl msg)"
  by (simp add: quiet_def logger_log_def)

lemma quiet_invoke [quiet_intros]: "quiet (invoke c op)"
  by (simp add: quiet_def invoke_def split: prod.splits sum.splits)

lemma quiet_exit_program [quiet_intros]: "quiet (exit_program message)"
  by (simp add: quiet_def exit_program_def and_then_def then_do_def logger_log_def print_def
      sys_exit_def)

lemma quiet_then_do [quiet_intros]:
  assumes "quiet m" and "\<And>x. quiet (f x)"
  shows "quiet (then_do m f)"
  unfolding quiet_def
proof
  fix s
  obtain r s1 where ms: "m s = (r, s1)" by (cases "m s")
  show "case then_do m f s of
       (Inr x, s') \<Rightarrow> printed s' = printed s
     | (Inl (Raised e), s') \<Rightarrow> printed s' = printed s
     | (Inl (SystemExit n), s') \<Rightarrow>
         n = 0 \<and> (\<exists>msg. printed s' = printed s @ [''ERROR. Exiting. '' @ msg])"
  proof (cases r)
    case (Inl a)
    with ms assms(1)[unfolded quiet_def, rule_format, of s] show ?thesis
      by (simp add: then_do_def)
  next
    case (Inr x)
    with ms assms(1)[unfolded quiet_def, rule_format, of s]
    have "printed s1 = printed s" by simp
    with assms(2)[of x, unfolded quiet_def, rule_format, of s1] ms Inr show ?thesis
      by (auto simp add: then_do_def split: prod.splits sum.splits abort.splits)
  qed
qed

lemma quiet_and_then [quiet_intros]: "quiet m \<Longrightarrow> quiet n \<Longrightarrow> quiet (and_then m n)"
  by (simp add: and_then_def quiet_then_do)

lemma quiet_if [quiet_intros]: "quiet a \<Longrightarrow> quiet b \<Longrightarrow> quiet (if c then a else b)"
  by simp

lemma quiet_for_each [quiet_intros]: "(\<And>x. quiet (body x)) \<Longrightarrow> quiet (for_each xs body)"
  by (induction xs) (simp_all add: quiet_intros)

lemma quiet_for_acc [quiet_intros]:
  "(\<And>x acc. quiet (body x acc)) \<Longrightarrow> quiet (for_acc xs acc body)"
  by (induction xs arbitrary: acc) (simp_all add: quiet_intros)

lemma quiet_policy_exists [quiet_intros]: "quiet (policy_exists p name)"
  unfolding policy_exists_def by (intro quiet_intros)

lemma quiet_create_policy [quiet_intros]:
  "quiet (create_policy p name description actions bucket_name user_name)"
  by (simp add: quiet_def create_policy_def Let_def and_then_def then_do_def logger_log_def
      invoke_def return_def raise_def split: prod.splits sum.splits abort.splits)

lemma quiet_create_and_add_policies [quiet_intros]:
  "quiet (create_and_add_policies p user bucket_name)"
  unfolding create_and_add_policies_def Let_def by (intro quiet_intros)

lemma quiet_write_keys_to_csv [quiet_intros]: "quiet (write_keys_to_csv p user_name key_pair)"
  unfolding write_keys_to_csv_def Let_def by (cases key_pair) (simp_all add: quiet_intros)

lemma quiet_create_body: "quiet (create_body p bucket_name user_name)"
  unfolding create_body_def by (intro quiet_intros)

lemma quiet_delete_keys [quiet_intros]: "quiet (delete_keys p user_name)"
  unfolding delete_keys_def by (intro quiet_intros)

lemma quiet_delete_policies [quiet_intros]: "quiet (delete_policies p user_name)"
  unfolding delete_policies_def Let_def by (intro quiet_intros)

lemma quiet_delete_objects [quiet_intros]: "quiet (delete_objects p bucket_name user_name)"
  unfolding delete_objects_def Let_def by (intro quiet_intros)

lemma quiet_delete_body: "quiet (delete_body p bucket_name user_name)"
  unfolding delete_body_def by (intro quiet_intros)

lemma quiet_on_exception: "quiet (on_exception e)"
  unfolding on_exception_def Let_def by (intro quiet_intros)

lemma on_exception_exits: "\<exists>n s'. on_exception e s = (Inl (SystemExit n), s')"
  by (simp add: on_exception_def Let_def exit_program_def and_then_def then_do_def
      logger_log_def print_def sys_exit_def)

lemma script_exit_and_output:
  assumes "quiet body"
  shows "fst (run_process (and_then (logger_log INFO msg)
                 (try_except_else body on_exception (print ''Success!''))) w) = 0
       \<and> (printed (snd (run_process (and_then (logger_log INFO msg)
                 (try_except_else body on_exception (print ''Success!''))) w)) = [''Success!'']
          \<or> (\<exists>m. printed (snd (run_process (and_then (logger_log INFO msg)
                 (try_except_else body on_exception (print ''Success!''))) w))
                = [''ERROR. Exiting. '' @ m]))"
proof -
  define s0 where "s0 = (init_state w)\<lparr>logged := [(INFO, msg)]\<rparr>"
  have p0: "printed s0 = []" by (simp add: s0_def init_state_def)
  have run: "run_process (and_then (logger_log INFO msg)
                 (try_except_else body on_exception (print ''Success!''))) w =
      (case try_except_else body on_exception (print ''Success!'') s0 of
        (Inr u, s) \<Rightarrow> (0, s)
      | (Inl (SystemExit n), s) \<Rightarrow> (n, s)
      | (Inl (Raised e), s) \<Rightarrow> (1, s))"
    by (simp add: run_process_def and_then_def then_do_def logger_log_def s0_def init_state_def)
  obtain r s1 where b: "body s0 = (r, s1)" by (cases "body s0")
  note q = assms[unfolded quiet_def, rule_format, of s0]
  show ?thesis
  proof (cases r)
    case (Inr x)
    with b q p0 show ?thesis unfolding run
      by (simp add: try_except_else_def print_def)
  next
    case (Inl a)
    show ?thesis
    proof (cases a)
      case (SystemExit n)
      with Inl b q p0 show ?thesis unfolding run
        by (auto simp add: try_except_else_def)
    next
      case (Raised e)
      with Inl b q p0 have p1: "printed s1 = []" by simp
      obtain n s2 where h: "on_exception e s1 = (Inl (SystemExit n), s2)"
        using on_exception_exits by blast
      from quiet_on_exception[of e, unfolded quiet_def, rule_format, of s1] h p1
      have "n = 0 \<and> (\<exists>m. printed s2 = [''ERROR. Exiting. '' @ m])" by simp
      with Raised Inl b h show ?thesis unfolding run
        by (simp add: try_except_else_def)
    qed
  qed
qed

lemma on_exception_result:
  "on_exception e s =
     (Inl (SystemExit 0),
      s\<lparr>logged := logged s @ [(ERROR, Text (error_text e)),
                               (ERROR, Text (''Exiting. '' @ error_text e))],
        printed := printed s @ [''ERROR. Exiting. '' @ error_text e]\<rparr>)"
  by (simp add: on_exception_def Let_def and_then_def then_do_def logger_log_def
      exit_program_result error_text_def)

lemma process_outcome:
  assumes q: "\<And>a. quiet (body a)"
    and bc: "basic_config h f w = (c, w0)"
    and m: "main (init_state w) =
      and_then (invoke (BasicConfig f) (basic_config h f))
        (case parse_args h A argv of
           Inl status \<Rightarrow> sys_exit status
         | Inr a \<Rightarrow> and_then (logger_log INFO (msg a))
                     (try_except_else (body a) on_exception (print ''Success!'')))
        (init_state w)"
  shows "(\<forall>e. c = Inl e \<longrightarrow>
           run_process main w =
             (1, \<lparr>world = w0, calls = [BasicConfig f], logged = [], printed = []\<rparr>))
    \<and> (\<forall>n. c = Inr () \<and> parse_args h A argv = Inl n \<longrightarrow>
           run_process main w =
             (n, \<lparr>world = w0, calls = [BasicConfig f], logged = [], printed = []\<rparr>))
    \<and> (\<forall>a. c = Inr () \<and> parse_args h A argv = Inr a \<longrightarrow>
          (case body a \<lparr>world = w0, calls = [BasicConfig f],
                         logged = [(INFO, msg a)], printed = []\<rparr> of
             (Inr x, s1) \<Rightarrow> run_process main w = (0, s1\<lparr>printed := [''Success!'']\<rparr>)
           | (Inl (Raised e), s1) \<Rightarrow>
               run_process main w =
                 (0, s1\<lparr>logged := logged s1 @ [(ERROR, Text (error_text e)),
                                                 (ERROR, Text (''Exiting. '' @ error_text e))],
                        printed := [''ERROR. Exiting. '' @ error_text e]\<rparr>)
           | (Inl (SystemExit n), s1) \<Rightarrow>
               run_process main w = (0, s1)
               \<and> (\<exists>text. printed s1 = [''ERROR. Exiting. '' @ text])))"
proof (intro conjI allI impI)
  fix e assume "c = Inl e"
  with bc show "run_process main w =
      (1, \<lparr>world = w0, calls = [BasicConfig f], logged = [], printed = []\<rparr>)"
    by (simp add: run_process_def m [unfolded init_state_def] and_then_def then_do_def invoke_def init_state_def)
next
  fix n assume "c = Inr () \<and> parse_args h A argv = Inl n"
  with bc show "run_process main w =
      (n, \<lparr>world = w0, calls = [BasicConfig f], logged = [], printed = []\<rparr>)"
    by (simp add: run_process_def m [unfolded init_state_def] and_then_def then_do_def invoke_def init_state_def
        sys_exit_def)
next
  fix a assume a: "c = Inr () \<and> parse_args h A argv = Inr a"
  let ?s0 = "\<lparr>world = w0, calls = [BasicConfig f], logged = [(INFO, msg a)], printed = []\<rparr>"
  have run: "run_process main w =
      (case try_except_else (body a) on_exception (print ''Success!'') ?s0 of
         (Inr u, s) \<Rightarrow> (0, s)
       | (Inl (SystemExit n), s) \<Rightarrow> (n, s)
       | (Inl (Raised e), s) \<Rightarrow> (1, s))"
    using a bc
    by (simp add: run_process_def m [unfolded init_state_def] and_then_def then_do_def invoke_def init_state_def
        logger_log_def)
  obtain r s1 where b: "body a ?s0 = (r, s1)" by (cases "body a ?s0")
  note quiet_here = q [of a, unfolded quiet_def, rule_format, of ?s0]
  show "case body a ?s0 of
             (Inr x, s1) \<Rightarrow> run_process main w = (0, s1\<lparr>printed := [''Success!'']\<rparr>)
           | (Inl (Raised e), s1) \<Rightarrow>
               run_process main w =
                 (0, s1\<lparr>logged := logged s1 @ [(ERROR, Text (error_text e)),
                                                 (ERROR, Text (''Exiting. '' @ error_text e))],
                        printed := [''ERROR. Exiting. '' @ error_text e]\<rparr>)
           | (Inl (SystemExit n), s1) \<Rightarrow>
               run_process main w = (0, s1)
               \<and> (\<exists>text. printed s1 = [''ERROR. Exiting. '' @ text])"
  proof (cases r)
    case (Inr x)
    with b quiet_here show ?thesis
      by (simp add: run try_except_else_def print_def)
  next
    case (Inl stop)
    show ?thesis
    proof (cases stop)
      case (SystemExit n)
      with Inl b quiet_here show ?thesis
        by (simp add: run try_except_else_def)
    next
      case (Raised e)
      with Inl b quiet_here show ?thesis
        by (simp add: run try_except_else_def on_exception_result)
    qed
  qed
qed

text \<open>
  C7, amended. A run of either script that gets past the set-up of the log file and the
  parsing of the command line ends with exit status 0, whether every step succeeded or one
  failed, and has called \<^verbatim>\<open>print\<close> exactly once: with \<^verbatim>\<open>Success!\<close> when the body
  of the \<^verbatim>\<open>try\<close> returned, with \<^verbatim>\<open>ERROR. Exiting. \<close> and the text of the exception
  when the body raised, and with the \<^verbatim>\<open>ERROR. Exiting. \<close> line of \<^verbatim>\<open>exit_program\<close>
  when the body left through it. A run whose command line \<^verbatim>\<open>argparse\<close> refuses ends
  with the status of that exit, and a run whose log file cannot be set up ends with the
  uncaught exception, status 1; both have printed neither line and called no provider.
\<close>

theorem exit_status_from_first_line:
  assumes "basic_config h (''create_s3_user_'' @ today h w @ ''.log'') w = (c, w0)"
    and "basic_config h (''delete_s3_user_'' @ today h w @ ''.log'') w = (c', w0')"
  shows
   "(\<forall>e. c = Inl e \<longrightarrow>
       run_process (create_s3_user_main h p argv) w =
         (1, \<lparr>world = w0, calls = [BasicConfig (''create_s3_user_'' @ today h w @ ''.log'')],
              logged = [], printed = []\<rparr>))
    \<and> (\<forall>n. c = Inr () \<and> parse_args h parser_arguments argv = Inl n \<longrightarrow>
       run_process (create_s3_user_main h p argv) w =
         (n, \<lparr>world = w0, calls = [BasicConfig (''create_s3_user_'' @ today h w @ ''.log'')],
              logged = [], printed = []\<rparr>))
    \<and> (\<forall>a. c = Inr () \<and> parse_args h parser_arguments argv = Inr a \<longrightarrow>
       (case create_body p (args_bucket_name a) (args_user_name a)
               \<lparr>world = w0, calls = [BasicConfig (''create_s3_user_'' @ today h w @ ''.log'')],
                logged = [(INFO, Text (''Creating iam-user '' @ args_user_name a
                                        @ '' for bucket '' @ args_bucket_name a))],
                printed = []\<rparr> of
          (Inr x, s1) \<Rightarrow>
            run_process (create_s3_user_main h p argv) w = (0, s1\<lparr>printed := [''Success!'']\<rparr>)
        | (Inl (Raised e), s1) \<Rightarrow>
            run_process (create_s3_user_main h p argv) w =
              (0, s1\<lparr>logged := logged s1 @ [(ERROR, Text (error_text e)),
                                              (ERROR, Text (''Exiting. '' @ error_text e))],
                     printed := [''ERROR. Exiting. '' @ error_text e]\<rparr>)
        | (Inl (SystemExit n), s1) \<Rightarrow>
            run_process (create_s3_user_main h p argv) w = (0, s1)
            \<and> (\<exists>text. printed s1 = [''ERROR. Exiting. '' @ text])))
    \<and> (\<forall>e. c' = Inl e \<longrightarrow>
       run_process (delete_s3_user_main h p argv) w =
         (1, \<lparr>world = w0', calls = [BasicConfig (''delete_s3_user_'' @ today h w @ ''.log'')],
              logged = [], printed = []\<rparr>))
    \<and> (\<forall>n. c' = Inr () \<and> parse_args h parser_arguments argv = Inl n \<longrightarrow>
       run_process (delete_s3_user_main h p argv) w =
         (n, \<lparr>world = w0', calls = [BasicConfig (''delete_s3_user_'' @ today h w @ ''.log'')],
              logged = [], printed = []\<rparr>))
    \<and> (\<forall>a. c' = Inr () \<and> parse_args h parser_arguments argv = Inr a \<longrightarrow>
       (case delete_body p (args_bucket_name a) (args_user_name a)
               \<lparr>world = w0', calls = [BasicConfig (''delete_s3_user_'' @ today h w @ ''.log'')],
                logged = [(INFO, Text (''Deleting iam-user '' @ args_user_name a
                                        @ '' for bucket '' @ args_bucket_name a @ ''.''))],
                printed = []\<rparr> of
          (Inr x, s1) \<Rightarrow>
            run_process (delete_s3_user_main h p argv) w = (0, s1\<lparr>printed := [''Success!'']\<rparr>)
        | (Inl (Raised e), s1) \<Rightarrow>
            run_process (delete_s3_user_main h p argv) w =
              (0, s1\<lparr>logged := logged s1 @ [(ERROR, Text (error_text e)),
                                              (ERROR, Text (''Exiting. '' @ error_text e))],
                     printed := [''ERROR. Exiting. '' @ error_text e]\<rparr>)
        | (Inl (SystemExit n), s1) \<Rightarrow>
            run_process (delete_s3_user_main h p argv) w = (0, s1)
            \<and> (\<exists>text. printed s1 = [''ERROR. Exiting. '' @ text])))"
proof -
  have mc: "create_s3_user_main h p argv (init_state w) =
      and_then (invoke (BasicConfig (''create_s3_user_'' @ today h w @ ''.log''))
                       (basic_config h (''create_s3_user_'' @ today h w @ ''.log'')))
        (case parse_args h parser_arguments argv of
           Inl status \<Rightarrow> sys_exit status
         | Inr a \<Rightarrow> and_then (logger_log INFO (Text (''Creating iam-user '' @ args_user_name a
                                        @ '' for bucket '' @ args_bucket_name a)))
                     (try_except_else (create_body p (args_bucket_name a) (args_user_name a))
                        on_exception (print ''Success!'')))
        (init_state w)"
    by (simp add: create_s3_user_main_def create_s3_user_def Let_def init_state_def
        split: sum.splits)
  have md: "delete_s3_user_main h p argv (init_state w) =
      and_then (invoke (BasicConfig (''delete_s3_user_'' @ today h w @ ''.log''))
                       (basic_config h (''delete_s3_user_'' @ today h w @ ''.log'')))
        (case parse_args h parser_arguments argv of
           Inl status \<Rightarrow> sys_exit status
         | Inr a \<Rightarrow> and_then (logger_log INFO (Text (''Deleting iam-user '' @ args_user_name a
                                        @ '' for bucket '' @ args_bucket_name a @ ''.'')))
                     (try_except_else (delete_body p (args_bucket_name a) (args_user_name a))
                        on_exception (print ''Success!'')))
        (init_state w)"
    by (simp add: delete_s3_user_main_def delete_s3_user_def Let_def init_state_def
        split: sum.splits)
  note pc = process_outcome [where body = "\<lambda>a. create_body p (args_bucket_name a) (args_user_name a)"
      and main = "create_s3_user_main h p argv"
      and msg = "\<lambda>a. Text (''Creating iam-user '' @ args_user_name a
                                        @ '' for bucket '' @ args_bucket_name a)",
      OF quiet_create_body assms(1) mc]
  note pd = process_outcome [where body = "\<lambda>a. delete_body p (args_bucket_name a) (args_user_name a)"
      and main = "delete_s3_user_main h p argv"
      and msg = "\<lambda>a. Text (''Deleting iam-user '' @ args_user_name a
                                        @ '' for bucket '' @ args_bucket_name a @ ''.'')",
      OF quiet_delete_body assms(2) md]
  from pc pd show ?thesis by (intro conjI) (elim conjE, assumption)+
qed

theorem exit_status_from_first_line_witness:
  "basic_config acct_host (''create_s3_user_'' @ today acct_host fresh @ ''.log'') fresh
     = (Inr (), fresh)
   \<and> parse_args acct_host parser_arguments [''-b'', ''data'', ''-u'', ''dave'']
     = Inr \<lparr>args_bucket_name = ''data'', args_user_name = ''dave''\<rparr>
   \<and> fst (run_process (create_s3_user_main acct_host acct
              [''-b'', ''data'', ''-u'', ''dave'']) fresh) = 0
   \<and> printed (snd (run_process (create_s3_user_main acct_host acct
              [''-b'', ''data'', ''-u'', ''dave'']) fresh)) = [''Success!'']
   \<and> fst (run_process (create_s3_user_main acct_host acct
              [''-b'', ''data'', ''-u'', ''dave'']) settled) = 0
   \<and> printed (snd (run_process (create_s3_user_main acct_host acct
              [''-b'', ''data'', ''-u'', ''dave'']) settled))
       = [''ERROR. Exiting. This user already exists in the account: dave'']
   \<and> fst (run_process (delete_s3_user_main acct_host acct
              [''-b'', ''data'', ''-u'', ''dave'']) settled) = 0
   \<and> printed (snd (run_process (delete_s3_user_main acct_host acct
              [''-b'', ''data'', ''-u'', ''dave'']) settled)) = [''Success!'']
   \<and> parse_args acct_host parser_arguments [''-b'', ''data''] = Inl 2
   \<and> run_process (delete_s3_user_main acct_host acct [''-b'', ''data'']) settled =
        (2, \<lparr>world = settled, calls = [BasicConfig ''delete_s3_user_20240101.log''],
             logged = [], printed = []\<rparr>)
   \<and> run_process (create_s3_user_main acct_host_read_only acct
              [''-b'', ''data'', ''-u'', ''dave'']) fresh =
        (1, \<lparr>world = fresh, calls = [BasicConfig ''create_s3_user_20240101.log''],
             logged = [], printed = []\<rparr>)"
proof -
  let ?argv = "[''-b'', ''data'', ''-u'', ''dave'']"
  let ?args = "\<lparr>args_bucket_name = ''data'', args_user_name = ''dave''\<rparr>"
  let ?denied = "\<lparr>exn_type = ''PermissionError'', exn_repr = ''denied'', client_error = False\<rparr>"
  have cf: "basic_config acct_host (''create_s3_user_'' @ today acct_host fresh @ ''.log'') fresh
      = (Inr (), fresh)"
    by (simp add: acct_host_def)
  have df: "basic_config acct_host (''delete_s3_user_'' @ today acct_host fresh @ ''.log'') fresh
      = (Inr (), fresh)"
    by (simp add: acct_host_def)
  have cs: "basic_config acct_host (''create_s3_user_'' @ today acct_host settled @ ''.log'') settled
      = (Inr (), settled)"
    by (simp add: acct_host_def)
  have ds: "basic_config acct_host (''delete_s3_user_'' @ today acct_host settled @ ''.log'') settled
      = (Inr (), settled)"
    by (simp add: acct_host_def)
  have cr: "basic_config acct_host_read_only
      (''create_s3_user_'' @ today acct_host_read_only fresh @ ''.log'') fresh = (Inl ?denied, fresh)"
    by (simp add: acct_host_read_only_def acct_host_def)
  have dr: "basic_config acct_host_read_only
      (''delete_s3_user_'' @ today acct_host_read_only fresh @ ''.log'') fresh = (Inl ?denied, fresh)"
    by (simp add: acct_host_read_only_def acct_host_def)
  have day: "today acct_host w = ''20240101''" for w
    by (simp add: acct_host_def)
  have day': "today acct_host_read_only w = ''20240101''" for w
    by (simp add: acct_host_read_only_def acct_host_def)
  have parsed: "parse_args acct_host parser_arguments ?argv = Inr ?args"
    by (simp add: main_defs)
  have refused: "parse_args acct_host parser_arguments [''-b'', ''data''] = Inl 2"
    by (simp add: main_defs)
  note on_fresh = exit_status_from_first_line [OF cf df, where p = acct and argv = ?argv]
  note on_settled = exit_status_from_first_line [OF cs ds, where p = acct and argv = ?argv]
  note on_short = exit_status_from_first_line [OF cs ds, where p = acct
      and argv = "[''-b'', ''data'']"]
  note on_read_only = exit_status_from_first_line [OF cr dr, where p = acct and argv = ?argv]
  have body1: "fst (create_body acct ''data'' ''dave''
       \<lparr>world = fresh, calls = [BasicConfig ''create_s3_user_20240101.log''],
        logged = [(INFO, Text ''Creating iam-user dave for bucket data'')], printed = []\<rparr>) = Inr ()"
    by (simp add: run_defs acct_defs is_valid_user_name_def user_name_pattern_def in_class_def
        name_class_def policy_doc_def resource_arn_def condition_def)
  have r1: "fst (run_process (create_s3_user_main acct_host acct ?argv) fresh) = 0
      \<and> printed (snd (run_process (create_s3_user_main acct_host acct ?argv) fresh)) = [''Success!'']"
    using on_fresh parsed body1 by (auto simp add: day split: prod.splits sum.splits abort.splits)
  have body2: "create_body acct ''data'' ''dave''
       \<lparr>world = settled, calls = [BasicConfig ''create_s3_user_20240101.log''],
        logged = [(INFO, Text ''Creating iam-user dave for bucket data'')], printed = []\<rparr> =
       (Inl (SystemExit 0),
        \<lparr>world = settled,
         calls = [BasicConfig ''create_s3_user_20240101.log'', BucketExists ''data'', ListUsers],
         logged = [(INFO, Text ''Creating iam-user dave for bucket data''),
                   (ERROR, Text ''Exiting. This user already exists in the account: dave'')],
         printed = [''ERROR. Exiting. This user already exists in the account: dave'']\<rparr>)"
    by (simp add: run_defs acct_defs is_valid_user_name_def user_name_pattern_def in_class_def
        name_class_def)
  have r2: "fst (run_process (create_s3_user_main acct_host acct ?argv) settled) = 0
      \<and> printed (snd (run_process (create_s3_user_main acct_host acct ?argv) settled))
          = [''ERROR. Exiting. This user already exists in the account: dave'']"
    using on_settled parsed body2 by (simp add: day)
  have body3: "fst (delete_body acct ''data'' ''dave''
       \<lparr>world = settled, calls = [BasicConfig ''delete_s3_user_20240101.log''],
        logged = [(INFO, Text ''Deleting iam-user dave for bucket data.'')], printed = []\<rparr>) = Inr ()"
    by (simp add: run_defs acct_defs)
  have r3: "fst (run_process (delete_s3_user_main acct_host acct ?argv) settled) = 0
      \<and> printed (snd (run_process (delete_s3_user_main acct_host acct ?argv) settled)) = [''Success!'']"
    using on_settled parsed body3 by (auto simp add: day split: prod.splits sum.splits abort.splits)
  have r4: "run_process (delete_s3_user_main acct_host acct [''-b'', ''data'']) settled =
        (2, \<lparr>world = settled, calls = [BasicConfig ''delete_s3_user_20240101.log''],
             logged = [], printed = []\<rparr>)"
    using on_short refused by (simp add: day)
  have r5: "run_process (create_s3_user_main acct_host_read_only acct ?argv) fresh =
        (1, \<lparr>world = fresh, calls = [BasicConfig ''create_s3_user_20240101.log''],
             logged = [], printed = []\<rparr>)"
    using on_read_only by (simp add: day')
  from cf parsed refused r1 r2 r3 r4 r5 show ?thesis by simp
qed

text \<open>
  C7 as stated says that every run ends with status 0 and one of the two lines. Run without
  arguments, each script stops in \<^verbatim>\<open>parse_args\<close>, where both options are required,
  with status 2 and neither line.
\<close>

theorem exit_status_without_arguments_counterexample:
  "run_process (create_s3_user_main acct_host acct []) fresh =
        (2, \<lparr>world = fresh, calls = [BasicConfig ''create_s3_user_20240101.log''],
             logged = [], printed = []\<rparr>)
   \<and> run_process (delete_s3_user_main acct_host acct []) settled =
        (2, \<lparr>world = settled, calls = [BasicConfig ''delete_s3_user_20240101.log''],
             logged = [], printed = []\<rparr>)"
  by (simp add: run_defs acct_defs main_defs)

section \<open>Deprovisioning\<close>

lemma for_acc_no_match:
  "upn \<notin> policy_name ` set ps \<Longrightarrow>
   for_acc ps found (\<lambda>policy found_policy. if policy_name policy = upn then hit policy
                                            else return found_policy) s
     = (Inr found, s)"
  by (induction ps) (auto simp add: then_do_def return_def)

lemma count_loop: "fold (\<lambda>key. Suc) ks k = k + length ks"
  by (induction ks arbitrary: k) simp_all

lemma delete_run_after_absences:
  assumes "list_keys p U w = (Inr [], w1)"
    and "list_policies p ''Local'' w1 = (Inr ps, w2)"
    and "user_policy_name p U ''list'' \<notin> policy_name ` set ps"
    and "user_policy_name p U ''get'' \<notin> policy_name ` set ps"
  shows "run_process (delete_s3_user p B U) w =
    run_process (\<lambda>s.
      try_except_else
        (and_then (invoke (DeleteUser U) (delete_user p U))
        (then_do (invoke (BucketExists B) (bucket_exists p B)) (\<lambda>found.
         and_then (if \<not> found then exit_program (''Bucket does not exist: '' @ B)
                else return ())
               (delete_objects p B U))))
        on_exception (print ''Success!'')
        (s\<lparr>world := w2,
           calls := [ListKeys U, ListPolicies ''Local''],
           logged := [(INFO, Text (''Deleting iam-user '' @ U @ '' for bucket '' @ B @ ''.'')),
                   (WARNING, Text (''No access keys found for user '' @ U @ ''.'')),
                   (WARNING, Text (''Cannot find policy to remove: ''
                                     @ user_policy_name p U ''list'' @ ''.'')),
                   (WARNING, Text (''Cannot find policy to remove: ''
                                     @ user_policy_name p U ''get'' @ ''.'')),
                   (INFO, Text (''Deleting user '' @ U))]\<rparr>)) w"
proof -
  let ?s0 = "(init_state w)\<lparr>logged := [(INFO, Text (''Deleting iam-user '' @ U @ '' for bucket '' @ B @ ''.''))]\<rparr>"
  let ?s1 = "?s0\<lparr>world := w1, calls := [ListKeys U],
                  logged := logged ?s0 @ [(WARNING, Text (''No access keys found for user '' @ U @ ''.''))]\<rparr>"
  have keys: "delete_keys p U ?s0 = (Inr (), ?s1)"
    using assms(1)
    by (simp add: delete_keys_def then_do_def invoke_def logger_log_def init_state_def)
  let ?s2 = "?s1\<lparr>world := w2, calls := [ListKeys U, ListPolicies ''Local''],
                  logged := logged ?s1 @
                    [(WARNING, Text (''Cannot find policy to remove: '' @ user_policy_name p U ''list'' @ ''.'')),
                     (WARNING, Text (''Cannot find policy to remove: '' @ user_policy_name p U ''get'' @ ''.''))]\<rparr>"
  have pols: "delete_policies p U ?s1 = (Inr (), ?s2)"
    using assms(2)
    by (simp add: delete_policies_def Let_def then_do_def and_then_def invoke_def logger_log_def
        init_state_def return_def for_acc_no_match[OF assms(3)] for_acc_no_match[OF assms(4)])
  have body: "delete_body p B U ?s0 =
        (and_then (invoke (DeleteUser U) (delete_user p U))
        (then_do (invoke (BucketExists B) (bucket_exists p B)) (\<lambda>found.
         and_then (if \<not> found then exit_program (''Bucket does not exist: '' @ B)
                else return ())
               (delete_objects p B U))))
        (?s2\<lparr>logged := logged ?s2 @ [(INFO, Text (''Deleting user '' @ U))]\<rparr>)"
    unfolding delete_body_def
    apply (subst and_then_def, subst then_do_def, simp only: keys prod.case sum.case)
    apply (subst and_then_def, subst then_do_def, simp only: pols prod.case sum.case)
    by (subst and_then_def, subst then_do_def, simp only: logger_log_def prod.case sum.case)
  show ?thesis
    unfolding run_process_def delete_s3_user_def
    apply (subst and_then_def, subst then_do_def, simp only: logger_log_def prod.case sum.case)
    apply (subst (1 2) try_except_else_def)
    using body by (simp add: init_state_def)
qed

text \<open>
  C8, amended. Deprovisioning a user for whom the provider lists no access key and no local
  policy with one of the two policy names is not made to fail by those absences: whatever
  the provider answers afterwards, the run logs a warning for each absence, goes on to the
  call that deletes the user, and exits with status 0. When that call raises, the run
  stops there with an error line. When it succeeds and the bucket check answers false, the
  run stops at the bucket check with an error line and no call on storage objects. When
  it succeeds, the bucket exists, the listing of the objects under \<open>U/\<close> succeeds and, if
  there are any, their deletion succeeds, the objects are listed and, if there are any,
  deleted, and the run prints \<^verbatim>\<open>Success!\<close>.
\<close>

theorem deprovision_without_keys_or_policies:
  assumes "list_keys p U w = (Inr [], w1)"
    and "list_policies p ''Local'' w1 = (Inr ps, w2)"
    and "user_policy_name p U ''list'' \<notin> policy_name ` set ps"
    and "user_policy_name p U ''get'' \<notin> policy_name ` set ps"
    and "delete_user p U w2 = (d, w3)"
  shows "fst (run_process (delete_s3_user p B U) w) = 0
   \<and> take 3 (calls (snd (run_process (delete_s3_user p B U) w))) =
        [ListKeys U, ListPolicies ''Local'', DeleteUser U]
   \<and> take 5 (logged (snd (run_process (delete_s3_user p B U) w))) =
        [(INFO, Text (''Deleting iam-user '' @ U @ '' for bucket '' @ B @ ''.'')),
         (WARNING, Text (''No access keys found for user '' @ U @ ''.'')),
         (WARNING, Text (''Cannot find policy to remove: '' @ user_policy_name p U ''list'' @ ''.'')),
         (WARNING, Text (''Cannot find policy to remove: '' @ user_policy_name p U ''get'' @ ''.'')),
         (INFO, Text (''Deleting user '' @ U))]
   \<and> (\<forall>e. d = Inl e \<longrightarrow>
        run_process (delete_s3_user p B U) w =
        (0, \<lparr>world = w3,
             calls = [ListKeys U, ListPolicies ''Local'', DeleteUser U],
             logged = [(INFO, Text (''Deleting iam-user '' @ U @ '' for bucket '' @ B @ ''.'')),
                   (WARNING, Text (''No access keys found for user '' @ U @ ''.'')),
                   (WARNING, Text (''Cannot find policy to remove: ''
                                     @ user_policy_name p U ''list'' @ ''.'')),
                   (WARNING, Text (''Cannot find policy to remove: ''
                                     @ user_policy_name p U ''get'' @ ''.'')),
                   (INFO, Text (''Deleting user '' @ U)),
                   (ERROR, Text (error_text e)),
                   (ERROR, Text (''Exiting. '' @ error_text e))],
             printed = [''ERROR. Exiting. '' @ error_text e]\<rparr>))
   \<and> (d = Inr () \<and> bucket_exists p B w3 = (Inr False, w_checked) \<longrightarrow>
        run_process (delete_s3_user p B U) w =
        (0, \<lparr>world = w_checked,
             calls = [ListKeys U, ListPolicies ''Local'', DeleteUser U, BucketExists B],
             logged = [(INFO, Text (''Deleting iam-user '' @ U @ '' for bucket '' @ B @ ''.'')),
                   (WARNING, Text (''No access keys found for user '' @ U @ ''.'')),
                   (WARNING, Text (''Cannot find policy to remove: ''
                                     @ user_policy_name p U ''list'' @ ''.'')),
                   (WARNING, Text (''Cannot find policy to remove: ''
                                     @ user_policy_name p U ''get'' @ ''.'')),
                   (INFO, Text (''Deleting user '' @ U)),
                   (ERROR, Text (''Exiting. Bucket does not exist: '' @ B))],
             printed = [''ERROR. Exiting. Bucket does not exist: '' @ B]\<rparr>))
   \<and> (d = Inr () \<and> bucket_exists p B w3 = (Inr True, w_checked)
        \<and> objects_filter p B (U @ ''/'') w_checked = (Inr ks, w_listed)
        \<and> (ks \<noteq> [] \<longrightarrow> objects_delete p B (U @ ''/'') w_listed = (Inr (), w_emptied)) \<longrightarrow>
        run_process (delete_s3_user p B U) w =
        (0, \<lparr>world = (if ks = [] then w_listed else w_emptied),
             calls = [ListKeys U, ListPolicies ''Local'', DeleteUser U, BucketExists B,
                  ObjectsFilter B (U @ ''/'')]
                 @ (if ks = [] then [] else [ObjectsDelete B (U @ ''/'')]),
             logged = [(INFO, Text (''Deleting iam-user '' @ U @ '' for bucket '' @ B @ ''.'')),
                   (WARNING, Text (''No access keys found for user '' @ U @ ''.'')),
                   (WARNING, Text (''Cannot find policy to remove: ''
                                     @ user_policy_name p U ''list'' @ ''.'')),
                   (WARNING, Text (''Cannot find policy to remove: ''
                                     @ user_policy_name p U ''get'' @ ''.'')),
                   (INFO, Text (''Deleting user '' @ U)),
                   (INFO, Text (''Deleting objects for user '' @ U @ '' in bucket '' @ B @ ''.'')),
                   (if ks = []
                    then (WARNING, Text (''No objects found for user '' @ U @ '' in bucket '' @ B @ ''.''))
                    else (INFO, Text (''Number of ojects to delete: '' @ str_nat (length ks))))],
             printed = [''Success!'']\<rparr>))"
proof -
  note run = delete_run_after_absences [OF assms(1-4), of B]
  note tail_defs = run_process_def init_state_def try_except_else_def and_then_def then_do_def
    invoke_def return_def exit_program_def logger_log_def print_def sys_exit_def
    on_exception_def delete_objects_def Let_def error_text_def count_loop
  show ?thesis
  proof (cases d)
    case (Inl e)
    with assms(5) show ?thesis unfolding run by (simp add: tail_defs)
  next
    case (Inr u)
    obtain rb w_checked' where b: "bucket_exists p B w3 = (rb, w_checked')"
      by (cases "bucket_exists p B w3")
    show ?thesis
    proof (cases rb)
      case (Inl e)
      with Inr b assms(5) show ?thesis unfolding run by (simp add: tail_defs)
    next
      case found: (Inr found)
      show ?thesis
      proof (cases found)
        case False
        with found Inr b assms(5) show ?thesis unfolding run by (simp add: tail_defs)
      next
        case True
        obtain rf w_listed' where f: "objects_filter p B (U @ ''/'') w_checked' = (rf, w_listed')"
          by (cases "objects_filter p B (U @ ''/'') w_checked'")
        show ?thesis
        proof (cases rf)
          case (Inl e)
          with True found Inr b f assms(5) show ?thesis unfolding run
            by (simp add: tail_defs)
        next
          case listed: (Inr ks')
          show ?thesis
          proof (cases "ks' = []")
            case True
            with listed \<open>found\<close> found Inr b f assms(5) show ?thesis unfolding run
              by (simp add: tail_defs)
          next
            case False
            obtain rd w_emptied' where x: "objects_delete p B (U @ ''/'') w_listed' = (rd, w_emptied')"
              by (cases "objects_delete p B (U @ ''/'') w_listed'")
            show ?thesis
            proof (cases rd)
              case (Inl e)
              with False listed \<open>found\<close> found Inr b f x assms(5) show ?thesis unfolding run
                by (simp add: tail_defs)
            next
              case deleted: (Inr v)
              with False listed \<open>found\<close> found Inr b f x assms(5) show ?thesis unfolding run
                by (simp add: tail_defs)
            qed
          qed
        qed
      qed
    qed
  qed
qed

theorem deprovision_without_keys_or_policies_witness:
  "list_keys acct ''dave'' settled = (Inr [], settled)
   \<and> list_policies acct ''Local'' settled = (Inr [], settled)
   \<and> run_process (delete_s3_user acct ''data'' ''dave'') settled =
    (0, \<lparr>world = settled\<lparr>users := [''j.doe''], objects := [(''data'', ''hal/b.txt'')]\<rparr>,
         calls = [ListKeys ''dave'', ListPolicies ''Local'', DeleteUser ''dave'',
                  BucketExists ''data'', ObjectsFilter ''data'' ''dave/'',
                  ObjectsDelete ''data'' ''dave/''],
         logged = [(INFO, Text ''Deleting iam-user dave for bucket data.''),
                   (WARNING, Text ''No access keys found for user dave.''),
                   (WARNING, Text ''Cannot find policy to remove: dave-list.''),
                   (WARNING, Text ''Cannot find policy to remove: dave-get.''),
                   (INFO, Text ''Deleting user dave''),
                   (INFO, Text ''Deleting objects for user dave in bucket data.''),
                   (INFO, Text ''Number of ojects to delete: 1'')],
         printed = [''Success!'']\<rparr>)
   \<and> list_keys acct_no_delete ''j.doe'' settled = (Inr [], settled)
   \<and> objects_filter acct_no_delete ''data'' ''j.doe/'' (settled\<lparr>users := [''dave'']\<rparr>) =
        (Inr [], settled\<lparr>users := [''dave'']\<rparr>)
   \<and> run_process (delete_s3_user acct_no_delete ''data'' ''j.doe'') settled =
    (0, \<lparr>world = settled\<lparr>users := [''dave'']\<rparr>,
         calls = [ListKeys ''j.doe'', ListPolicies ''Local'', DeleteUser ''j.doe'',
                  BucketExists ''data'', ObjectsFilter ''data'' ''j.doe/''],
         logged = [(INFO, Text ''Deleting iam-user j.doe for bucket data.''),
                   (WARNING, Text ''No access keys found for user j.doe.''),
                   (WARNING, Text ''Cannot find policy to remove: j.doe-list.''),
                   (WARNING, Text ''Cannot find policy to remove: j.doe-get.''),
                   (INFO, Text ''Deleting user j.doe''),
                   (INFO, Text ''Deleting objects for user j.doe in bucket data.''),
                   (WARNING, Text ''No objects found for user j.doe in bucket data.'')],
         printed = [''Success!'']\<rparr>)
   \<and> run_process (delete_s3_user acct ''nope'' ''j.doe'') settled =
    (0, \<lparr>world = settled\<lparr>users := [''dave'']\<rparr>,
         calls = [ListKeys ''j.doe'', ListPolicies ''Local'', DeleteUser ''j.doe'',
                  BucketExists ''nope''],
         logged = [(INFO, Text ''Deleting iam-user j.doe for bucket nope.''),
                   (WARNING, Text ''No access keys found for user j.doe.''),
                   (WARNING, Text ''Cannot find policy to remove: j.doe-list.''),
                   (WARNING, Text ''Cannot find policy to remove: j.doe-get.''),
                   (INFO, Text ''Deleting user j.doe''),
                   (ERROR, Text ''Exiting. Bucket does not exist: nope'')],
         printed = [''ERROR. Exiting. Bucket does not exist: nope'']\<rparr>)"
proof -
  let ?w3 = "settled\<lparr>users := [''j.doe'']\<rparr>"
  let ?w6 = "settled\<lparr>users := [''j.doe''], objects := [(''data'', ''hal/b.txt'')]\<rparr>"
  let ?v3 = "settled\<lparr>users := [''dave'']\<rparr>"
  have upn: "user_policy_name acct u kind = u @ ''-'' @ kind" for u kind
    by (simp add: acct_def acct_user_policy_name_def)
  have upn': "user_policy_name acct_no_delete u kind = u @ ''-'' @ kind" for u kind
    by (simp add: acct_no_delete_def acct_def acct_user_policy_name_def)
  have n: "str_nat (Suc 0) = ''1''" by code_simp
  have k1: "list_keys acct ''dave'' settled = (Inr [], settled)"
    by (simp add: acct_defs)
  have p1: "list_policies acct ''Local'' settled = (Inr [], settled)"
    by (simp add: acct_defs)
  have l1: "user_policy_name acct ''dave'' ''list'' \<notin> policy_name ` set ([] :: iam_policy list)"
    by simp
  have g1: "user_policy_name acct ''dave'' ''get'' \<notin> policy_name ` set ([] :: iam_policy list)"
    by simp
  have d1: "delete_user acct ''dave'' settled = (Inr (), ?w3)"
    by (simp add: acct_defs)
  have b1: "bucket_exists acct ''data'' ?w3 = (Inr True, ?w3)"
    by (simp add: acct_defs)
  have f1: "objects_filter acct ''data'' (''dave'' @ ''/'') ?w3 = (Inr [''dave/a.txt''], ?w3)"
    by (simp add: acct_defs)
  have x1: "objects_delete acct ''data'' (''dave'' @ ''/'') ?w3 = (Inr (), ?w6)"
    by (simp add: acct_defs)
  have k2: "list_keys acct_no_delete ''j.doe'' settled = (Inr [], settled)"
    by (simp add: acct_no_delete_def acct_defs)
  have p2: "list_policies acct_no_delete ''Local'' settled = (Inr [], settled)"
    by (simp add: acct_no_delete_def acct_defs)
  have l2: "user_policy_name acct_no_delete ''j.doe'' ''list'' \<notin> policy_name ` set ([] :: iam_policy list)"
    by simp
  have g2: "user_policy_name acct_no_delete ''j.doe'' ''get'' \<notin> policy_name ` set ([] :: iam_policy list)"
    by simp
  have d2: "delete_user acct_no_delete ''j.doe'' settled = (Inr (), ?v3)"
    by (simp add: acct_no_delete_def acct_defs)
  have b2: "bucket_exists acct_no_delete ''data'' ?v3 = (Inr True, ?v3)"
    by (simp add: acct_no_delete_def acct_defs)
  have f2: "objects_filter acct_no_delete ''data'' (''j.doe'' @ ''/'') ?v3 = (Inr [], ?v3)"
    by (simp add: acct_no_delete_def acct_defs)
  have k3: "list_keys acct ''j.doe'' settled = (Inr [], settled)"
    by (simp add: acct_defs)
  have l3: "user_policy_name acct ''j.doe'' ''list'' \<notin> policy_name ` set ([] :: iam_policy list)"
    by simp
  have g3: "user_policy_name acct ''j.doe'' ''get'' \<notin> policy_name ` set ([] :: iam_policy list)"
    by simp
  have d3: "delete_user acct ''j.doe'' settled = (Inr (), ?v3)"
    by (simp add: acct_defs)
  have b3: "bucket_exists acct ''nope'' ?v3 = (Inr False, ?v3)"
    by (simp add: acct_defs)
  note t1 = deprovision_without_keys_or_policies [OF k1 p1 l1 g1 d1,
      where B = "''data''" and w_checked = "?w3" and w_listed = "?w3" and w_emptied = "?w6"
        and ks = "[''dave/a.txt'']"]
  note t2 = deprovision_without_keys_or_policies [OF k2 p2 l2 g2 d2,
      where B = "''data''" and w_checked = "?v3" and w_listed = "?v3" and ks = "[]"]
  note t3 = deprovision_without_keys_or_policies [OF k3 p1 l3 g3 d3,
      where B = "''nope''" and w_checked = "?v3"]
  from t1 b1 f1 x1 have r1: "run_process (delete_s3_user acct ''data'' ''dave'') settled =
    (0, \<lparr>world = ?w6,
         calls = [ListKeys ''dave'', ListPolicies ''Local'', DeleteUser ''dave'',
                  BucketExists ''data'', ObjectsFilter ''data'' ''dave/'',
                  ObjectsDelete ''data'' ''dave/''],
         logged = [(INFO, Text ''Deleting iam-user dave for bucket data.''),
                   (WARNING, Text ''No access keys found for user dave.''),
                   (WARNING, Text ''Cannot find policy to remove: dave-list.''),
                   (WARNING, Text ''Cannot find policy to remove: dave-get.''),
                   (INFO, Text ''Deleting user dave''),
                   (INFO, Text ''Deleting objects for user dave in bucket data.''),
                   (INFO, Text ''Number of ojects to delete: 1'')],
         printed = [''Success!'']\<rparr>)"
    by (simp add: upn n)
  from t2 b2 f2 have r2: "run_process (delete_s3_user acct_no_delete ''data'' ''j.doe'') settled =
    (0, \<lparr>world = ?v3,
         calls = [ListKeys ''j.doe'', ListPolicies ''Local'', DeleteUser ''j.doe'',
                  BucketExists ''data'', ObjectsFilter ''data'' ''j.doe/''],
         logged = [(INFO, Text ''Deleting iam-user j.doe for bucket data.''),
                   (WARNING, Text ''No access keys found for user j.doe.''),
                   (WARNING, Text ''Cannot find policy to remove: j.doe-list.''),
                   (WARNING, Text ''Cannot find policy to remove: j.doe-get.''),
                   (INFO, Text ''Deleting user j.doe''),
                   (INFO, Text ''Deleting objects for user j.doe in bucket data.''),
                   (WARNING, Text ''No objects found for user j.doe in bucket data.'')],
         printed = [''Success!'']\<rparr>)"
    by (simp add: upn')
  from t3 b3 have r3: "run_process (delete_s3_user acct ''nope'' ''j.doe'') settled =
    (0, \<lparr>world = ?v3,
         calls = [ListKeys ''j.doe'', ListPolicies ''Local'', DeleteUser ''j.doe'',
                  BucketExists ''nope''],
         logged = [(INFO, Text ''Deleting iam-user j.doe for bucket nope.''),
                   (WARNING, Text ''No access keys found for user j.doe.''),
                   (WARNING, Text ''Cannot find policy to remove: j.doe-list.''),
                   (WARNING, Text ''Cannot find policy to remove: j.doe-get.''),
                   (INFO, Text ''Deleting user j.doe''),
                   (ERROR, Text ''Exiting. Bucket does not exist: nope'')],
         printed = [''ERROR. Exiting. Bucket does not exist: nope'']\<rparr>)"
    by (simp add: upn)
  from k1 p1 k2 f2 r1 r2 r3 show ?thesis by simp
qed

text \<open>
  C8 as stated says that such a run does not fail and goes on to the objects. With no key
  and no policy for the existing user \<^verbatim>\<open>dave\<close> and a bucket that does not exist, the
  run deletes the user, then fails at the bucket check and issues no storage-object call.
\<close>

theorem deprovision_missing_bucket_counterexample:
  "list_keys acct ''dave'' settled = (Inr [], settled)
   \<and> list_policies acct ''Local'' settled = (Inr [], settled)
   \<and> ''dave'' \<in> set (users settled)
   \<and> run_process (delete_s3_user acct ''nope'' ''dave'') settled =
    (0, \<lparr>world = settled\<lparr>users := [''j.doe'']\<rparr>,
         calls = [ListKeys ''dave'', ListPolicies ''Local'', DeleteUser ''dave'',
                  BucketExists ''nope''],
         logged = [(INFO, Text ''Deleting iam-user dave for bucket nope.''),
                   (WARNING, Text ''No access keys found for user dave.''),
                   (WARNING, Text ''Cannot find policy to remove: dave-list.''),
                   (WARNING, Text ''Cannot find policy to remove: dave-get.''),
                   (INFO, Text ''Deleting user dave''),
                   (ERROR, Text ''Exiting. Bucket does not exist: nope'')],
         printed = [''ERROR. Exiting. Bucket does not exist: nope'']\<rparr>)"
  by (simp add: run_defs acct_defs)

section \<open>Storage-object calls of a deprovisioning run\<close>

named_theorems keeps_intros

lemma keeps_return [keeps_intros]: "keeps ok (return x)"
  by (simp add: keeps_def return_def)

lemma keeps_logger_log [keeps_intros]: "keeps ok (logger_log lvl msg)"
  by (simp add: keeps_def logger_log_def)

lemma keeps_print [keeps_intros]: "keeps ok (print line)"
  by (simp add: keeps_def print_def)

lemma keeps_sys_exit [keeps_intros]: "keeps ok (sys_exit n)"
  by (simp add: keeps_def sys_exit_def)

lemma keeps_invoke [keeps_intros]: "ok c \<Longrightarrow> keeps ok (invoke c op)"
  by (simp add: keeps_def invoke_def split: prod.splits sum.splits)

lemma keeps_then_do [keeps_intros]:
  "keeps ok m \<Longrightarrow> (\<And>x. keeps ok (f x)) \<Longrightarrow> keeps ok (then_do m f)"
  unfolding keeps_def then_do_def
  by (auto split: prod.splits sum.splits)

lemma keeps_and_then [keeps_intros]: "keeps ok m \<Longrightarrow> keeps ok n \<Longrightarrow> keeps ok (and_then m n)"
  by (simp add: and_then_def keeps_then_do)

lemma keeps_if [keeps_intros]: "keeps ok a \<Longrightarrow> keeps ok b \<Longrightarrow> keeps ok (if c then a else b)"
  by simp

lemma keeps_for_each [keeps_intros]: "(\<And>x. keeps ok (body x)) \<Longrightarrow> keeps ok (for_each xs body)"
  by (induction xs) (simp_all add: keeps_intros)

lemma keeps_for_acc [keeps_intros]:
  "(\<And>x acc. keeps ok (body x acc)) \<Longrightarrow> keeps ok (for_acc xs acc body)"
  by (induction xs arbitrary: acc) (simp_all add: keeps_intros)

lemma keeps_exit_program [keeps_intros]: "keeps ok (exit_program message)"
  unfolding exit_program_def by (intro keeps_intros)

lemma keeps_try_except_else [keeps_intros]:
  "keeps ok body \<Longrightarrow> (\<And>e. keeps ok (handler e)) \<Longrightarrow> keeps ok orelse
     \<Longrightarrow> keeps ok (try_except_else body handler orelse)"
  unfolding keeps_def try_except_else_def
  by (auto split: prod.splits sum.splits abort.splits)

lemma keeps_on_exception [keeps_intros]: "keeps ok (on_exception e)"
  unfolding on_exception_def Let_def by (intro keeps_intros)

lemma calls_run_process: "calls (snd (run_process m w)) = calls (snd (m (init_state w)))"
  by (simp add: run_process_def split: prod.splits sum.splits abort.splits)

lemma keeps_delete_s3_user:
  assumes "ok (ObjectsFilter B (U @ ''/''))" and "ok (ObjectsDelete B (U @ ''/''))"
    and "\<And>c. storage_scope c = None \<Longrightarrow> ok c"
  shows "keeps ok (delete_s3_user p B U)"
  unfolding delete_s3_user_def delete_body_def delete_keys_def delete_policies_def
    delete_objects_def Let_def
  by (intro keeps_intros; simp add: assms)

text \<open>
  C9. In every deprovisioning run, every listing and every deletion of storage objects that
  the script issues is on the bucket \<open>B\<close> with the prefix \<open>U/\<close>; all other calls of the
  run are not storage-object calls.
\<close>

theorem object_calls_scoped_to_user_prefix:
  "\<forall>c\<in>set (calls (snd (run_process (delete_s3_user p B U) w))).
     storage_scope c = None \<or> storage_scope c = Some (B, U @ ''/'')"
proof -
  let ?ok = "\<lambda>c. storage_scope c = None \<or> storage_scope c = Some (B, U @ ''/'')"
  have "keeps ?ok (delete_s3_user p B U)"
    by (rule keeps_delete_s3_user) simp_all
  then have "list_all ?ok (calls (snd (delete_s3_user p B U (init_state w))))"
    unfolding keeps_def by (simp add: init_state_def)
  then show ?thesis
    by (simp add: calls_run_process list_all_iff)
qed

lemma settled_delete_calls:
  "calls (snd (run_process (delete_s3_user acct ''data'' ''dave'') settled)) =
     [ListKeys ''dave'', ListPolicies ''Local'', DeleteUser ''dave'', BucketExists ''data'',
      ObjectsFilter ''data'' ''dave/'', ObjectsDelete ''data'' ''dave/'']"
  by (simp add: run_defs acct_defs)

theorem object_calls_scoped_to_user_prefix_witness:
  "ObjectsDelete ''data'' ''dave/''
     \<in> set (calls (snd (run_process (delete_s3_user acct ''data'' ''dave'') settled)))
   \<and> storage_scope (ObjectsDelete ''data'' ''dave/'') = Some (''data'', ''dave'' @ ''/'')"
  using object_calls_scoped_to_user_prefix [of acct "''data''" "''dave''" settled]
  by (simp add: settled_delete_calls)

end
